theory Spec2Isabelle
  imports Main "HOL-Library.Char_ord" "HOL-Library.List_Lexorder"
begin

section \<open>Python values, exceptions and string helpers\<close>

text \<open>
  The values that travel through the \<^verbatim>\<open>Dict[str, Any]\<close> arguments of \<^verbatim>\<open>models.py\<close>
  and through the session dictionaries of \<^verbatim>\<open>handlers.py\<close>. Strings are char lists.
\<close>

datatype pyval = PNone | PBool bool | PInt int | PStr string

type_synonym pydict = "string \<rightharpoonup> pyval"

datatype exn = AttributeError | KeyError | ValueError | IntegrityError

text \<open>\<^verbatim>\<open>d.get(k, default)\<close>; \<^verbatim>\<open>d.get(k)\<close> is \<^verbatim>\<open>d.get(k, None)\<close>.\<close>

definition dict_get :: "pydict \<Rightarrow> string \<Rightarrow> pyval \<Rightarrow> pyval" where
  "dict_get d k dflt = (case d k of Some v \<Rightarrow> v | None \<Rightarrow> dflt)"

text \<open>\<^verbatim>\<open>str.lower()\<close> on the ASCII letters.\<close>

definition lower_char :: "char \<Rightarrow> char" where
  "lower_char c =
     (let n = (of_char c :: nat) in if 65 \<le> n \<and> n \<le> 90 then char_of (n + 32) else c)"

definition lower :: "string \<Rightarrow> string" where
  "lower s = map lower_char s"

text \<open>\<^verbatim>\<open>v.lower()\<close> on a Python value: only a \<^verbatim>\<open>str\<close> has the method.\<close>

definition py_lower :: "pyval \<Rightarrow> exn + string" where
  "py_lower v = (case v of PStr s \<Rightarrow> Inr (lower s) | _ \<Rightarrow> Inl AttributeError)"

text \<open>\<^verbatim>\<open>s.startswith(p)\<close>.\<close>

definition startswith :: "string \<Rightarrow> string \<Rightarrow> bool" where
  "startswith s p = (take (length p) s = p)"

text \<open>
  \<^verbatim>\<open>s.split(sep)[1]\<close> for an \<^verbatim>\<open>s\<close> that starts with the non-empty \<^verbatim>\<open>sep\<close>: the text
  between the leading separator and its next occurrence (or the end).
\<close>

fun until_sep :: "string \<Rightarrow> string \<Rightarrow> string" where
  "until_sep sep [] = []"
| "until_sep sep (c # cs) =
     (if startswith (c # cs) sep then [] else c # until_sep sep cs)"

definition split_second :: "string \<Rightarrow> string \<Rightarrow> string" where
  "split_second sep s = until_sep sep (drop (length sep) s)"

text \<open>Decimal digits: \<^verbatim>\<open>str(n)\<close> for a natural number and for an integer.\<close>

definition digit_char :: "nat \<Rightarrow> char" where
  "digit_char d = char_of (48 + d)"

fun str_of_nat :: "nat \<Rightarrow> string" where
  "str_of_nat n =
     (if n < 10 then [digit_char n] else str_of_nat (n div 10) @ [digit_char (n mod 10)])"

declare str_of_nat.simps [simp del]

definition str_of_int :: "int \<Rightarrow> string" where
  "str_of_int i = (if i < 0 then CHR ''-'' # str_of_nat (nat (- i)) else str_of_nat (nat i))"

text \<open>The format specs \<^verbatim>\<open>{n:03d}\<close> and, inside \<^verbatim>\<open>strftime\<close>, the two-digit fields.\<close>

definition zero_pad :: "nat \<Rightarrow> nat \<Rightarrow> string" where
  "zero_pad w n = replicate (w - length (str_of_nat n)) CHR ''0'' @ str_of_nat n"

definition format_03d :: "nat \<Rightarrow> string" where
  "format_03d n = zero_pad 3 n"

text \<open>Reading a digit string back (used to state that a sequence field denotes a number).\<close>

definition is_digit :: "char \<Rightarrow> bool" where
  "is_digit c = (48 \<le> (of_char c :: nat) \<and> (of_char c :: nat) \<le> 57)"

definition nat_of_digits :: "string \<Rightarrow> nat" where
  "nat_of_digits s = fold (\<lambda>c acc. 10 * acc + ((of_char c :: nat) - 48)) s 0"

section \<open>Clock\<close>

text \<open>
  The code reads two clocks: Python's \<^verbatim>\<open>datetime.now()\<close> (local time) and SQLite's
  \<^verbatim>\<open>CURRENT_TIMESTAMP\<close> / \<^verbatim>\<open>DATE('now')\<close> (UTC). One reading of both is an input of every
  operation. \<open>sql_now\<close> is the text \<^verbatim>\<open>YYYY-MM-DD HH:MM:SS\<close>; \<open>sql_week_ago\<close> is
  \<^verbatim>\<open>date('now', '-7 days')\<close>.
\<close>

record clock =
  py_year :: nat
  py_month :: nat
  py_day :: nat
  sql_now :: string
  sql_week_ago :: string

text \<open>\<^verbatim>\<open>datetime.now().strftime('%y%m%d')\<close>.\<close>

definition strftime_ymd :: "clock \<Rightarrow> string" where
  "strftime_ymd clk =
     zero_pad 2 (py_year clk mod 100) @ zero_pad 2 (py_month clk) @ zero_pad 2 (py_day clk)"

text \<open>SQLite \<^verbatim>\<open>DATE(ts)\<close> of a \<^verbatim>\<open>YYYY-MM-DD HH:MM:SS\<close> text, and \<^verbatim>\<open>date('now', 'start of month')\<close>.\<close>

definition sql_date :: "string \<Rightarrow> string" where
  "sql_date ts = take 10 ts"

definition sql_month_start :: "clock \<Rightarrow> string" where
  "sql_month_start clk = take 8 (sql_now clk) @ ''01''"

section \<open>Tables\<close>

text \<open>
  The rows of \<^verbatim>\<open>users\<close>, \<^verbatim>\<open>tasks\<close>, \<^verbatim>\<open>activity_logs\<close> and \<^verbatim>\<open>files\<close> as
  \<^verbatim>\<open>DatabaseManager._create_tables\<close> declares them. The two \<^verbatim>\<open>REAL\<close> columns of
  \<^verbatim>\<open>tasks\<close> (estimated and actual hours) are never written by the code and are left out.
  Columns that receive a caller-supplied value unchanged hold a \<open>pyval\<close>.
\<close>

record user =
  u_id :: nat
  telegram_id :: string
  username :: "string option"
  full_name :: "string option"
  u_status :: string
  role :: "string option"
  u_created_at :: string
  last_login :: "string option"

record task =
  t_id :: nat
  task_code :: string
  task_type :: pyval
  category :: pyval
  description :: pyval
  customer_name :: pyval
  customer_city :: pyval
  customer_area :: pyval
  travel_required :: bool
  company_type :: pyval
  t_status :: string
  priority :: pyval
  created_by :: nat
  t_created_at :: string
  completion_date :: "string option"

record activity_log =
  a_id :: nat
  a_user_id :: nat
  activity_type :: string
  a_description :: "string option"
  start_time :: string
  end_time :: "string option"
  duration_minutes :: "int option"
  a_task_id :: "nat option"
  location_notes :: "string option"
  billable :: bool
  a_company_type :: "string option"
  a_created_at :: string

record file_record =
  f_id :: nat
  f_task_id :: "nat option"
  filename :: string
  original_filename :: string
  file_type :: string
  file_size :: "int option"
  upload_method :: string
  uploaded_by :: nat
  uploaded_at :: string
  f_description :: "string option"

text \<open>
  \<open>db_log\<close> records the tables a call reads or writes, one entry per table and kind of
  access in the order of first use, so that a theorem can say which tables an operation
  touched. \<open>conn_ok\<close> is whether
  \<^verbatim>\<open>DatabaseManager.get_connection\<close> returns a connection; \<open>user_seq\<close> and \<open>task_seq\<close> are
  the \<^verbatim>\<open>AUTOINCREMENT\<close> counters. \<open>unique_usernames\<close> is whether the \<^verbatim>\<open>users\<close> table
  carries the \<^verbatim>\<open>UNIQUE\<close> constraint on \<^verbatim>\<open>username\<close>: the table of \<^verbatim>\<open>database_setup.py\<close>
  does, the one that \<^verbatim>\<open>_create_tables\<close> creates when none exists does not.
\<close>

datatype table = Users | Tasks | Activity_logs | Files

datatype access = Read table | Write table

record db =
  conn_ok :: bool
  unique_usernames :: bool
  users :: "user list"
  tasks :: "task list"
  activity_logs :: "activity_log list"
  files :: "file_record list"
  user_seq :: nat
  task_seq :: nat
  db_log :: "access list"

definition logged :: "access \<Rightarrow> db \<Rightarrow> db" where
  "logged a d = d\<lparr>db_log := db_log d @ [a]\<rparr>"

section \<open>TaskManager\<close>

definition category_prefixes :: "(string \<times> string) list" where
  "category_prefixes =
     [(''installation'', ''INST''), (''maintenance'', ''MAINT''), (''repair'', ''REP''),
      (''inspection'', ''INSP''), (''calibration'', ''CAL''), (''commissioning'', ''COMM''),
      (''training'', ''TRAIN''), (''emergency'', ''EMRG''), (''other'', ''OTHER'')]"

text \<open>\<^verbatim>\<open>category_prefixes.get(category.lower(), 'TASK')\<close> for a string category.\<close>

definition category_prefix :: "string \<Rightarrow> string" where
  "category_prefix c =
     (case map_of category_prefixes (lower c) of Some p \<Rightarrow> p | None \<Rightarrow> ''TASK'')"

text \<open>
  \<^verbatim>\<open>task_code LIKE '<pat>%'\<close> for a pattern text without wildcard characters: SQLite's
  \<^verbatim>\<open>LIKE\<close> ignores the case of ASCII letters.
\<close>

definition sql_like_prefix :: "string \<Rightarrow> string \<Rightarrow> bool" where
  "sql_like_prefix pat s =
     (length pat \<le> length s \<and> lower (take (length pat) s) = lower pat)"

text \<open>The \<^verbatim>\<open>WHERE\<close> clause of the counting query in \<^verbatim>\<open>_generate_task_code\<close>.\<close>

definition counted_today :: "clock \<Rightarrow> string \<Rightarrow> task \<Rightarrow> bool" where
  "counted_today clk pat t =
     (sql_like_prefix pat (task_code t) \<and> sql_date (t_created_at t) = sql_date (sql_now clk))"

definition generate_task_code :: "clock \<Rightarrow> task list \<Rightarrow> pyval \<Rightarrow> exn + string" where
  "generate_task_code clk rows cat =
     (case py_lower cat of
        Inl e \<Rightarrow> Inl e
      | Inr c \<Rightarrow>
          let prefix = (case map_of category_prefixes c of Some p \<Rightarrow> p | None \<Rightarrow> ''TASK'');
              date_str = strftime_ymd clk;
              count = length (filter (counted_today clk (prefix @ ''-'' @ date_str @ ''-'')) rows) + 1
          in Inr (prefix @ ''-'' @ date_str @ ''-'' @ format_03d count))"

text \<open>
  The constraints of the \<^verbatim>\<open>tasks\<close> table that an \<^verbatim>\<open>INSERT\<close> can violate: the unique code,
  the \<^verbatim>\<open>NOT NULL\<close> columns, the \<^verbatim>\<open>CHECK\<close> lists (a \<^verbatim>\<open>NULL\<close> passes a \<^verbatim>\<open>CHECK\<close>) and
  the foreign key of \<^verbatim>\<open>created_by\<close> (\<^verbatim>\<open>PRAGMA foreign_keys = ON\<close>).
\<close>

definition task_insert_ok :: "db \<Rightarrow> task \<Rightarrow> bool" where
  "task_insert_ok d row =
     (task_code row \<notin> set (map task_code (tasks d)) \<and>
      task_type row \<in> {PStr ''technical_task'', PStr ''support_ticket''} \<and>
      category row \<noteq> PNone \<and>
      description row \<noteq> PNone \<and>
      company_type row \<in> {PNone, PStr ''SARL'', PStr ''ZF''} \<and>
      priority row \<in> {PNone, PStr ''normal'', PStr ''high'', PStr ''critical''} \<and>
      created_by row \<in> set (map u_id (users d)))"

definition next_id :: "nat \<Rightarrow> nat list \<Rightarrow> nat" where
  "next_id seq ids = Suc (fold max ids seq)"

text \<open>
  \<^verbatim>\<open>TaskManager.create_task\<close>. Every exception of the body is caught and gives \<^verbatim>\<open>None\<close>;
  the connection is closed without a commit, so nothing is stored then.
\<close>

definition create_task :: "clock \<Rightarrow> pydict \<Rightarrow> nat \<Rightarrow> db \<Rightarrow> string option \<times> db" where
  "create_task clk task_data creator d =
     (if \<not> conn_ok d then (None, d)
      else case generate_task_code clk (tasks d) (dict_get task_data ''category'' PNone) of
        Inl e \<Rightarrow> (None, d)
      | Inr code \<Rightarrow>
          let d1 = logged (Read Tasks) d in
          (case task_data ''category'' of
             None \<Rightarrow> (None, d1)
           | Some cat \<Rightarrow>
          (case task_data ''description'' of
             None \<Rightarrow> (None, d1)
           | Some desc \<Rightarrow>
          (case py_lower (dict_get task_data ''customer_city'' (PStr '''')) of
             Inl e \<Rightarrow> (None, d1)
           | Inr city \<Rightarrow>
               let row = \<lparr>t_id = next_id (task_seq d1) (map t_id (tasks d1)),
                          task_code = code,
                          task_type = dict_get task_data ''task_type'' (PStr ''technical_task''),
                          category = cat,
                          description = desc,
                          customer_name = dict_get task_data ''customer_name'' PNone,
                          customer_city = dict_get task_data ''customer_city'' PNone,
                          customer_area = dict_get task_data ''customer_area'' PNone,
                          travel_required = (city \<noteq> ''tanger''),
                          company_type = dict_get task_data ''company_type'' PNone,
                          t_status = ''to_do'',
                          priority = dict_get task_data ''priority'' (PStr ''normal''),
                          created_by = creator,
                          t_created_at = sql_now clk,
                          completion_date = None\<rparr>
               in if task_insert_ok d1 row
                  then (Some code,
                        logged (Write Tasks)
                          (d1\<lparr>tasks := tasks d1 @ [row], task_seq := t_id row\<rparr>))
                  else (None, d1)))))"

text \<open>
  \<^verbatim>\<open>TaskManager.get_all_tasks\<close>: newest first, optionally one status only. Here and in the
  other \<^verbatim>\<open>ORDER BY\<close> queries, rows with equal keys come in an order that SQLite does not
  fix; the model takes the one of a stable sort.
\<close>

definition get_all_tasks :: "string option \<Rightarrow> db \<Rightarrow> task list \<times> db" where
  "get_all_tasks status_filter d =
     (if \<not> conn_ok d then ([], d)
      else
        (rev (sort_key t_created_at
           (case status_filter of
              None \<Rightarrow> tasks d
            | Some s \<Rightarrow> if s = [] then tasks d else filter (\<lambda>t. t_status t = s) (tasks d))),
         logged (Read Tasks) d))"

text \<open>\<^verbatim>\<open>TaskManager.get_task_by_code\<close>: the row with exactly this code, if any.\<close>

definition get_task_by_code :: "string \<Rightarrow> db \<Rightarrow> task option \<times> db" where
  "get_task_by_code code d =
     (if \<not> conn_ok d then (None, d)
      else (find (\<lambda>t. task_code t = code) (tasks d), logged (Read Tasks) d))"

section \<open>UserManager\<close>

text \<open>\<^verbatim>\<open>UserManager.get_user_by_telegram_id\<close>.\<close>

definition get_user_by_telegram_id :: "string \<Rightarrow> db \<Rightarrow> user option \<times> db" where
  "get_user_by_telegram_id tid d =
     (if \<not> conn_ok d then (None, d)
      else (find (\<lambda>u. telegram_id u = tid) (users d), logged (Read Users) d))"

text \<open>
  \<^verbatim>\<open>UserManager.register_user\<close>: \<^verbatim>\<open>False\<close> without a connection or when a row with this
  \<^verbatim>\<open>telegram_id\<close> exists; otherwise a row with status \<^verbatim>\<open>pending\<close> and no role is inserted.
  Where usernames are unique the \<^verbatim>\<open>INSERT\<close> of a username that is already stored raises
  an integrity error, which the \<^verbatim>\<open>except\<close> clause turns into \<^verbatim>\<open>False\<close>; a \<^verbatim>\<open>NULL\<close> username
  collides with nothing. The other constraints of \<^verbatim>\<open>users\<close> hold after the existence check.
\<close>

definition register_user ::
  "clock \<Rightarrow> string \<Rightarrow> string \<Rightarrow> string option \<Rightarrow> db \<Rightarrow> bool \<times> db" where
  "register_user clk tid name uname d =
     (if \<not> conn_ok d then (False, d)
      else
        let d1 = logged (Read Users) d in
        if find (\<lambda>u. telegram_id u = tid) (users d1) \<noteq> None then (False, d1)
        else if unique_usernames d1 \<and> uname \<noteq> None \<and> uname \<in> set (map username (users d1))
        then (False, d1)
        else
          let row = \<lparr>u_id = next_id (user_seq d1) (map u_id (users d1)),
                     telegram_id = tid,
                     username = uname,
                     full_name = Some name,
                     u_status = ''pending'',
                     role = None,
                     u_created_at = sql_now clk,
                     last_login = None\<rparr>
          in (True, logged (Write Users) (d1\<lparr>users := users d1 @ [row], user_seq := u_id row\<rparr>)))"

text \<open>\<^verbatim>\<open>UserManager.update_last_login\<close>.\<close>

definition update_last_login :: "clock \<Rightarrow> nat \<Rightarrow> db \<Rightarrow> bool \<times> db" where
  "update_last_login clk uid d =
     (if \<not> conn_ok d then (False, d)
      else (True,
            logged (Write Users)
              (d\<lparr>users := map (\<lambda>u. if u_id u = uid then u\<lparr>last_login := Some (sql_now clk)\<rparr> else u)
                              (users d)\<rparr>)))"

section \<open>ActivityManager and StatsManager\<close>

text \<open>SQLite \<^verbatim>\<open>LIMIT n\<close>: a negative \<^verbatim>\<open>n\<close> means no limit.\<close>

definition sql_limit :: "int \<Rightarrow> 'a list \<Rightarrow> 'a list" where
  "sql_limit n xs = (if n < 0 then xs else take (nat n) xs)"

text \<open>\<^verbatim>\<open>ActivityManager.get_user_activities\<close>: the user's rows, latest start first.\<close>

definition get_user_activities :: "nat \<Rightarrow> int \<Rightarrow> db \<Rightarrow> activity_log list \<times> db" where
  "get_user_activities uid limit d =
     (if \<not> conn_ok d then ([], d)
      else
        (sql_limit limit
           (rev (sort_key start_time (filter (\<lambda>a. a_user_id a = uid) (activity_logs d)))),
         logged (Read Activity_logs) d))"

text \<open>
  \<^verbatim>\<open>ActivityManager.get_user_stats\<close>. The dictionary it returns is a record here, and the
  empty dictionary of the failure path is \<open>None\<close>. \<open>month_minutes\<close> is the
  \<^verbatim>\<open>COALESCE(SUM(duration_minutes), 0)\<close> of the third query; the code divides it by
  \<^verbatim>\<open>60.0\<close> and rounds, a floating-point step that reads nothing else.
\<close>

record user_stats =
  total_activities :: nat
  week_activities :: nat
  month_minutes :: int
  top_activities :: "(string \<times> nat) list"

text \<open>\<^verbatim>\<open>GROUP BY activity_type ORDER BY count DESC LIMIT 5\<close>.\<close>

definition group_counts :: "string list \<Rightarrow> (string \<times> nat) list" where
  "group_counts tys = map (\<lambda>ty. (ty, count_list tys ty)) (sort (remdups tys))"

definition top_five :: "string list \<Rightarrow> (string \<times> nat) list" where
  "top_five tys = take 5 (rev (sort_key snd (group_counts tys)))"

definition get_user_stats :: "clock \<Rightarrow> nat \<Rightarrow> db \<Rightarrow> user_stats option \<times> db" where
  "get_user_stats clk uid d =
     (if \<not> conn_ok d then (None, d)
      else
        let own = filter (\<lambda>a. a_user_id a = uid) (activity_logs d) in
        (Some \<lparr>total_activities = length own,
               week_activities = length (filter (\<lambda>a. sql_week_ago clk \<le> start_time a) own),
               month_minutes =
                 sum_list (map (\<lambda>a. case duration_minutes a of Some m \<Rightarrow> m | None \<Rightarrow> 0)
                             (filter (\<lambda>a. sql_month_start clk \<le> start_time a) own)),
               top_activities = top_five (map activity_type own)\<rparr>,
         logged (Read Activity_logs) d))"

text \<open>
  \<^verbatim>\<open>StatsManager.get_global_stats\<close>. The completion rate of the source is a rounded float
  computed from \<open>completed_tasks\<close> and \<open>total_tasks\<close> and is left out.
\<close>

record global_stats =
  total_tasks :: nat
  completed_tasks :: nat
  active_tasks :: nat
  active_users :: nat
  total_files :: nat
  g_week_activities :: nat
  task_distribution :: "(string \<times> nat) list"

definition get_global_stats :: "clock \<Rightarrow> db \<Rightarrow> global_stats option \<times> db" where
  "get_global_stats clk d =
     (if \<not> conn_ok d then (None, d)
      else
        (Some \<lparr>total_tasks = length (tasks d),
               completed_tasks = length (filter (\<lambda>t. t_status t = ''completed'') (tasks d)),
               active_tasks = length (filter (\<lambda>t. t_status t = ''in_progress'') (tasks d)),
               active_users = length (filter (\<lambda>u. u_status u = ''active'') (users d)),
               total_files = length (files d),
               g_week_activities =
                 length (filter (\<lambda>a. sql_week_ago clk \<le> start_time a) (activity_logs d)),
               task_distribution = group_counts (map t_status (tasks d))\<rparr>,
         logged (Read Activity_logs)
           (logged (Read Files) (logged (Read Users) (logged (Read Tasks) d)))))"

section \<open>Handlers: events, replies and state\<close>

text \<open>
  A message carries its sender (\<^verbatim>\<open>str(message.from_user.id)\<close>, the sender's full name and
  optional username). A callback query carries the account that pressed the button, the
  button's data and the message the keyboard hangs on, whose sender is whoever sent that
  message.
\<close>

record message =
  msg_from :: string
  msg_full_name :: string
  msg_username :: "string option"

record callback =
  cb_from :: string
  cb_data :: "string option"
  cb_message :: message

text \<open>
  What the bot sends. Texts that \<^verbatim>\<open>ui.py\<close> renders from data carry that data; fixed texts
  are named by their sentence or header.
\<close>

datatype message_body =
    Access_denied_message
  | Text_message string
  | Registration_pending_message string string
  | Full_stats_message "user_stats option" "global_stats option"
  | Personal_stats_message "user_stats option"
  | Team_stats_message "global_stats option"
  | Upload_task_menu "task list"
  | Schedule_message "task list" "activity_log list"
  | Settings_message user
  | No_tasks_message string
  | Task_page string nat "task list"
  | Create_task_prompt string
  | Log_activity_prompt string
  | Upload_prompt task

datatype reply =
    Message_answer message_body
  | Message_edit message_body
  | Message_delete
  | Callback_answer "string option" bool

text \<open>\<^verbatim>\<open>BotHandlers\<close>: the database and the \<^verbatim>\<open>active_sessions\<close> dictionary, keyed by user id.\<close>

record bot_state =
  bdb :: db
  active_sessions :: "nat \<rightharpoonup> pydict"

section \<open>Handlers: access control\<close>

definition check_user_access :: "clock \<Rightarrow> string \<Rightarrow> db \<Rightarrow> user option \<times> db" where
  "check_user_access clk tid d =
     (case get_user_by_telegram_id tid d of
        (None, d1) \<Rightarrow> (None, d1)
      | (Some u, d1) \<Rightarrow>
          if u_status u \<noteq> ''active'' then (None, d1)
          else (Some u, snd (update_last_login clk (u_id u) d1)))"

definition require_auth ::
  "clock \<Rightarrow> message \<Rightarrow> bot_state \<Rightarrow> user option \<times> reply list \<times> bot_state" where
  "require_auth clk m st =
     (case check_user_access clk (msg_from m) (bdb st) of
        (None, d1) \<Rightarrow> (None, [Message_answer Access_denied_message], st\<lparr>bdb := d1\<rparr>)
      | (Some u, d1) \<Rightarrow> (Some u, [], st\<lparr>bdb := d1\<rparr>))"

text \<open>\<^verbatim>\<open>user.get('role') in required_roles\<close>.\<close>

definition require_role :: "user \<Rightarrow> string list \<Rightarrow> bool" where
  "require_role u required_roles =
     (case role u of None \<Rightarrow> False | Some r \<Rightarrow> r \<in> set required_roles)"

section \<open>Handlers: commands and menu buttons\<close>

definition cmd_register :: "clock \<Rightarrow> message \<Rightarrow> bot_state \<Rightarrow> reply list \<times> bot_state" where
  "cmd_register clk m st =
     (case get_user_by_telegram_id (msg_from m) (bdb st) of
        (Some u, d1) \<Rightarrow>
          if u_status u = ''active''
          then ([Message_answer (Text_message ''You are already registered and active!'')],
                st\<lparr>bdb := d1\<rparr>)
          else if u_status u = ''pending''
          then ([Message_answer (Text_message ''Your registration is pending approval.'')],
                st\<lparr>bdb := d1\<rparr>)
          else ([Message_answer (Text_message
                   ''Your registration was rejected. Please contact an administrator.'')],
                st\<lparr>bdb := d1\<rparr>)
      | (None, d1) \<Rightarrow>
          let name = (if msg_full_name m = [] then ''User_'' @ msg_from m else msg_full_name m)
          in (case register_user clk (msg_from m) name (msg_username m) d1 of
                (True, d2) \<Rightarrow>
                  ([Message_answer (Registration_pending_message name (msg_from m))],
                   st\<lparr>bdb := d2\<rparr>)
              | (False, d2) \<Rightarrow>
                  ([Message_answer (Text_message ''Registration failed. Please try again.'')],
                   st\<lparr>bdb := d2\<rparr>)))"

definition handle_my_tasks :: "clock \<Rightarrow> message \<Rightarrow> bot_state \<Rightarrow> reply list \<times> bot_state" where
  "handle_my_tasks clk m st =
     (case require_auth clk m st of
        (None, rs, st1) \<Rightarrow> (rs, st1)
      | (Some u, rs, st1) \<Rightarrow> (rs @ [Message_answer (Text_message ''Task Management'')], st1))"

definition handle_new_task :: "clock \<Rightarrow> message \<Rightarrow> bot_state \<Rightarrow> reply list \<times> bot_state" where
  "handle_new_task clk m st =
     (case require_auth clk m st of
        (None, rs, st1) \<Rightarrow> (rs, st1)
      | (Some u, rs, st1) \<Rightarrow>
          if \<not> require_role u [''manager'', ''technician'']
          then (rs @ [Message_answer
                        (Text_message ''You don't have permission to create tasks.'')], st1)
          else (rs @ [Message_answer (Text_message ''Create New Task'')], st1))"

definition handle_log_activity :: "clock \<Rightarrow> message \<Rightarrow> bot_state \<Rightarrow> reply list \<times> bot_state" where
  "handle_log_activity clk m st =
     (case require_auth clk m st of
        (None, rs, st1) \<Rightarrow> (rs, st1)
      | (Some u, rs, st1) \<Rightarrow> (rs @ [Message_answer (Text_message ''Log Activity'')], st1))"

definition handle_my_stats :: "clock \<Rightarrow> message \<Rightarrow> bot_state \<Rightarrow> reply list \<times> bot_state" where
  "handle_my_stats clk m st =
     (case require_auth clk m st of
        (None, rs, st1) \<Rightarrow> (rs, st1)
      | (Some u, rs, st1) \<Rightarrow>
          (case get_user_stats clk (u_id u) (bdb st1) of (user_stats, d1) \<Rightarrow>
          (case get_global_stats clk d1 of (global_stats, d2) \<Rightarrow>
             (rs @ [Message_answer (Full_stats_message user_stats global_stats)],
              st1\<lparr>bdb := d2\<rparr>))))"

definition handle_upload_file :: "clock \<Rightarrow> message \<Rightarrow> bot_state \<Rightarrow> reply list \<times> bot_state" where
  "handle_upload_file clk m st =
     (case require_auth clk m st of
        (None, rs, st1) \<Rightarrow> (rs, st1)
      | (Some u, rs, st1) \<Rightarrow>
          (case get_all_tasks None (bdb st1) of (ts, d1) \<Rightarrow>
             if ts = []
             then (rs @ [Message_answer (Text_message ''No tasks available for file upload.'')],
                   st1\<lparr>bdb := d1\<rparr>)
             else (rs @ [Message_answer (Upload_task_menu (take 10 ts))], st1\<lparr>bdb := d1\<rparr>)))"

text \<open>\<^verbatim>\<open>_format_active_tasks\<close> and \<^verbatim>\<open>_format_recent_activities\<close>: the rows they print.\<close>

definition format_active_tasks :: "task list \<Rightarrow> task list" where
  "format_active_tasks ts = take 3 (filter (\<lambda>t. t_status t \<in> {''to_do'', ''in_progress''}) ts)"

definition format_recent_activities :: "activity_log list \<Rightarrow> activity_log list" where
  "format_recent_activities as = take 3 as"

definition handle_schedule :: "clock \<Rightarrow> message \<Rightarrow> bot_state \<Rightarrow> reply list \<times> bot_state" where
  "handle_schedule clk m st =
     (case require_auth clk m st of
        (None, rs, st1) \<Rightarrow> (rs, st1)
      | (Some u, rs, st1) \<Rightarrow>
          (case get_all_tasks None (bdb st1) of (ts, d1) \<Rightarrow>
          (case get_user_activities (u_id u) 5 d1 of (user_activities, d2) \<Rightarrow>
             (rs @ [Message_answer
                      (Schedule_message (format_active_tasks ts)
                         (format_recent_activities user_activities))],
              st1\<lparr>bdb := d2\<rparr>))))"

definition handle_settings :: "clock \<Rightarrow> message \<Rightarrow> bot_state \<Rightarrow> reply list \<times> bot_state" where
  "handle_settings clk m st =
     (case require_auth clk m st of
        (None, rs, st1) \<Rightarrow> (rs, st1)
      | (Some u, rs, st1) \<Rightarrow> (rs @ [Message_answer (Settings_message u)], st1))"

definition handle_file_upload :: "clock \<Rightarrow> message \<Rightarrow> bot_state \<Rightarrow> reply list \<times> bot_state" where
  "handle_file_upload clk m st =
     (case require_auth clk m st of
        (None, rs, st1) \<Rightarrow> (rs, st1)
      | (Some u, rs, st1) \<Rightarrow>
          (rs @ [Message_answer (Text_message ''Please select a task first.'')], st1))"

text \<open>
  The menu buttons and the media filter as \<^verbatim>\<open>TelegramBotApplication._setup_handlers\<close>
  registers them, each with its handler.
\<close>

datatype menu_entry =
  My_tasks | New_task | Log_activity | My_stats | Upload_file | Schedule | Settings | File_upload

fun handle_menu ::
  "clock \<Rightarrow> menu_entry \<Rightarrow> message \<Rightarrow> bot_state \<Rightarrow> reply list \<times> bot_state" where
  "handle_menu clk My_tasks = handle_my_tasks clk"
| "handle_menu clk New_task = handle_new_task clk"
| "handle_menu clk Log_activity = handle_log_activity clk"
| "handle_menu clk My_stats = handle_my_stats clk"
| "handle_menu clk Upload_file = handle_upload_file clk"
| "handle_menu clk Schedule = handle_schedule clk"
| "handle_menu clk Settings = handle_settings clk"
| "handle_menu clk File_upload = handle_file_upload clk"

section \<open>Handlers: callback queries\<close>

text \<open>
  Python's \<^verbatim>\<open>int(s)\<close> on a text of characters below 256: surrounding whitespace is
  dropped (tab to carriage return, space, and the two non-ASCII spaces 0x85 and 0xA0, but
  not the separators 0x1C to 0x1F), one sign is allowed, and the digits may be grouped by
  single underscores; anything else raises \<^verbatim>\<open>ValueError\<close>.
\<close>

definition is_space :: "char \<Rightarrow> bool" where
  "is_space c = ((of_char c :: nat) \<in> {9, 10, 11, 12, 13, 32, 133, 160})"

definition strip :: "string \<Rightarrow> string" where
  "strip s = rev (dropWhile is_space (rev (dropWhile is_space s)))"

definition digits_ok :: "string \<Rightarrow> bool" where
  "digits_ok ds =
     (ds \<noteq> [] \<and> is_digit (hd ds) \<and> is_digit (last ds) \<and>
      list_all (\<lambda>c. is_digit c \<or> c = CHR ''_'') ds \<and>
      \<not> list_ex (\<lambda>(a, b). a = CHR ''_'' \<and> b = CHR ''_'') (zip ds (tl ds)))"

definition py_int :: "string \<Rightarrow> exn + int" where
  "py_int s =
     (let t = strip s;
          signed = (t \<noteq> [] \<and> (hd t = CHR ''-'' \<or> hd t = CHR ''+''));
          ds = (if signed then tl t else t)
      in if digits_ok ds
         then Inr ((if signed \<and> hd t = CHR ''-'' then - 1 else 1) *
                   int (nat_of_digits (filter is_digit ds)))
         else Inl ValueError)"

definition handle_task_filter :: "string \<Rightarrow> user \<Rightarrow> bot_state \<Rightarrow> reply list \<times> bot_state" where
  "handle_task_filter data u st =
     (let filter_type = split_second ''tasks_filter_'' data;
          status_filter = (if filter_type = ''all'' then None else Some filter_type)
      in case get_all_tasks status_filter (bdb st) of (ts, d1) \<Rightarrow>
           if ts = [] then ([Message_edit (No_tasks_message filter_type)], st\<lparr>bdb := d1\<rparr>)
           else ([Message_edit (Task_page filter_type (length ts) (take 5 ts))],
                 st\<lparr>bdb := d1\<rparr>))"

definition handle_category_selection ::
  "string \<Rightarrow> user \<Rightarrow> bot_state \<Rightarrow> reply list \<times> bot_state" where
  "handle_category_selection data u st =
     (if \<not> require_role u [''manager'', ''technician'']
      then ([Callback_answer (Some ''You don't have permission to create tasks.'') True], st)
      else
        let category = split_second ''cat_'' data
        in ([Message_edit (Create_task_prompt category)],
            st\<lparr>active_sessions := (active_sessions st)(u_id u \<mapsto>
                  [''action'' \<mapsto> PStr ''create_task'',
                   ''category'' \<mapsto> PStr category,
                   ''step'' \<mapsto> PStr ''description''])\<rparr>))"

definition handle_activity_selection ::
  "string \<Rightarrow> user \<Rightarrow> bot_state \<Rightarrow> reply list \<times> bot_state" where
  "handle_activity_selection data u st =
     (let activity_type = split_second ''act_'' data
      in ([Message_edit (Log_activity_prompt activity_type)],
          st\<lparr>active_sessions := (active_sessions st)(u_id u \<mapsto>
                [''action'' \<mapsto> PStr ''log_activity'',
                 ''activity_type'' \<mapsto> PStr activity_type,
                 ''step'' \<mapsto> PStr ''description''])\<rparr>))"

text \<open>
  \<^verbatim>\<open>_handle_upload_task_selection\<close>: the \<^verbatim>\<open>int(...)\<close> of the first line may raise, before
  anything else is done.
\<close>

definition handle_upload_task_selection ::
  "string \<Rightarrow> user \<Rightarrow> bot_state \<Rightarrow> exn + (reply list \<times> bot_state)" where
  "handle_upload_task_selection data u st =
     (case py_int (split_second ''upload_task_'' data) of
        Inl e \<Rightarrow> Inl e
      | Inr task_id \<Rightarrow>
          (case get_task_by_code (''TASK-'' @ str_of_int task_id) (bdb st) of
             (None, d1) \<Rightarrow> Inr ([Callback_answer (Some ''Task not found.'') True], st\<lparr>bdb := d1\<rparr>)
           | (Some t, d1) \<Rightarrow>
               Inr ([Message_edit (Upload_prompt t)],
                    st\<lparr>bdb := d1,
                       active_sessions := (active_sessions st)(u_id u \<mapsto>
                         [''action'' \<mapsto> PStr ''upload_file'',
                          ''task_id'' \<mapsto> PInt task_id,
                          ''step'' \<mapsto> PStr ''waiting_file''])\<rparr>)))"

definition handle_stats_action ::
  "clock \<Rightarrow> string \<Rightarrow> user \<Rightarrow> bot_state \<Rightarrow> reply list \<times> bot_state" where
  "handle_stats_action clk data u st =
     (let action = split_second ''stats_'' data in
      if action = ''personal'' then
        (case get_user_stats clk (u_id u) (bdb st) of (stats, d1) \<Rightarrow>
           ([Message_edit (Personal_stats_message stats)], st\<lparr>bdb := d1\<rparr>))
      else if action = ''team'' then
        (case get_global_stats clk (bdb st) of (stats, d1) \<Rightarrow>
           ([Message_edit (Team_stats_message stats)], st\<lparr>bdb := d1\<rparr>))
      else if action = ''refresh'' then
        (case get_user_stats clk (u_id u) (bdb st) of (user_stats, d1) \<Rightarrow>
        (case get_global_stats clk d1 of (global_stats, d2) \<Rightarrow>
           ([Message_edit (Full_stats_message user_stats global_stats)], st\<lparr>bdb := d2\<rparr>)))
      else ([Message_edit (Text_message ''Feature coming soon!'')], st))"

text \<open>The placeholder handlers answer the query with a fixed text.\<close>

definition placeholder :: "string \<Rightarrow> bot_state \<Rightarrow> reply list \<times> bot_state" where
  "placeholder text st = ([Callback_answer (Some text) False], st)"

text \<open>The \<^verbatim>\<open>await callback.answer()\<close> that closes \<^verbatim>\<open>handle_callback\<close>'s chain.\<close>

definition then_answer :: "reply list \<times> bot_state \<Rightarrow> reply list \<times> bot_state" where
  "then_answer r = (fst r @ [Callback_answer None False], snd r)"

text \<open>
  The chain of \<^verbatim>\<open>handle_callback\<close> after the access check, inside its \<^verbatim>\<open>try\<close>. \<open>Inl\<close> is
  an exception on its way to the \<^verbatim>\<open>except\<close> clause: \<^verbatim>\<open>data.startswith\<close> on a query without
  data, or the \<^verbatim>\<open>ValueError\<close> of the upload selection.
\<close>

definition authenticated_callback ::
  "clock \<Rightarrow> string option \<Rightarrow> user \<Rightarrow> bot_state \<Rightarrow> exn + (reply list \<times> bot_state)" where
  "authenticated_callback clk data u st =
     (case data of
        None \<Rightarrow> Inl AttributeError
      | Some s \<Rightarrow>
          if startswith s ''tasks_filter_'' then Inr (then_answer (handle_task_filter s u st))
          else if startswith s ''cat_'' then Inr (then_answer (handle_category_selection s u st))
          else if startswith s ''city_''
          then Inr (then_answer (placeholder ''City selection - Feature in development'' st))
          else if startswith s ''company_''
          then Inr (then_answer (placeholder ''Company selection - Feature in development'' st))
          else if startswith s ''priority_''
          then Inr (then_answer (placeholder ''Priority selection - Feature in development'' st))
          else if startswith s ''act_'' then Inr (then_answer (handle_activity_selection s u st))
          else if startswith s ''upload_task_''
          then (case handle_upload_task_selection s u st of
                  Inl e \<Rightarrow> Inl e
                | Inr r \<Rightarrow> Inr (then_answer r))
          else if s = ''upload_search''
          then Inr (then_answer (placeholder ''Upload search - Feature in development'' st))
          else if startswith s ''stats_'' then Inr (then_answer (handle_stats_action clk s u st))
          else if startswith s ''schedule_''
          then Inr (then_answer (placeholder ''Schedule action - Feature in development'' st))
          else if startswith s ''settings_''
          then Inr (then_answer (placeholder ''Settings action - Feature in development'' st))
          else if startswith s ''help_''
          then Inr (then_answer (placeholder ''Help action - Feature in development'' st))
          else if s = ''noop'' then Inr ([Callback_answer None False], st)
          else Inr (then_answer ([Callback_answer (Some ''Unknown action'') False], st)))"

text \<open>
  \<^verbatim>\<open>BotHandlers.handle_callback\<close>. The registration start is handed to \<^verbatim>\<open>cmd_register\<close>
  with the callback's message; every exception of the chain is answered with an alert.
\<close>

definition handle_callback :: "clock \<Rightarrow> callback \<Rightarrow> bot_state \<Rightarrow> reply list \<times> bot_state" where
  "handle_callback clk cb st =
     (if cb_data cb = Some ''start_registration''
      then (case cmd_register clk (cb_message cb) st of (rs, st1) \<Rightarrow> (Message_delete # rs, st1))
      else if cb_data cb = Some ''learn_more''
      then ([Message_edit (Text_message ''About Techmac Bot'')], st)
      else
        (case check_user_access clk (cb_from cb) (bdb st) of
           (None, d1) \<Rightarrow>
             ([Callback_answer (Some ''Access denied. Please register first.'') True],
              st\<lparr>bdb := d1\<rparr>)
         | (Some u, d1) \<Rightarrow>
             (case authenticated_callback clk (cb_data cb) u (st\<lparr>bdb := d1\<rparr>) of
                Inl e \<Rightarrow>
                  ([Callback_answer (Some ''An error occurred. Please try again.'') True],
                   st\<lparr>bdb := d1\<rparr>)
              | Inr r \<Rightarrow> r)))"

section \<open>Notions used by the statements\<close>

text \<open>The status of the account behind an external handle, if the handle is registered.\<close>

definition account_status :: "db \<Rightarrow> string \<Rightarrow> string option" where
  "account_status d tid = map_option u_status (find (\<lambda>u. telegram_id u = tid) (users d))"

text \<open>
  What an operation of a caller who is turned away leaves behind: the lookup of the
  caller in \<^verbatim>\<open>users\<close>, and nothing else.
\<close>

definition after_lookup :: "bot_state \<Rightarrow> bot_state" where
  "after_lookup st =
     st\<lparr>bdb := (if conn_ok (bdb st) then logged (Read Users) (bdb st) else bdb st)\<rparr>"

text \<open>Two databases hold the same rows in every table.\<close>

definition same_rows :: "db \<Rightarrow> db \<Rightarrow> bool" where
  "same_rows d d' =
     (users d' = users d \<and> tasks d' = tasks d \<and> activity_logs d' = activity_logs d \<and>
      files d' = files d)"

text \<open>The activity rows a reply shows.\<close>

fun body_activities :: "message_body \<Rightarrow> activity_log list" where
  "body_activities (Schedule_message ts as) = as"
| "body_activities _ = []"

fun reply_activities :: "reply \<Rightarrow> activity_log list" where
  "reply_activities (Message_answer b) = body_activities b"
| "reply_activities (Message_edit b) = body_activities b"
| "reply_activities _ = []"

text \<open>The personal statistics a reply shows.\<close>

fun body_user_stats :: "message_body \<Rightarrow> user_stats option list" where
  "body_user_stats (Full_stats_message us gs) = [us]"
| "body_user_stats (Personal_stats_message us) = [us]"
| "body_user_stats _ = []"

fun reply_user_stats :: "reply \<Rightarrow> user_stats option list" where
  "reply_user_stats (Message_answer b) = body_user_stats b"
| "reply_user_stats (Message_edit b) = body_user_stats b"
| "reply_user_stats _ = []"


text \<open>
  The state of one prefix on one day: the stored codes that match the day's pattern are
  the first \<open>k\<close> codes of the sequence, in order, and their rows were created on the
  database's current date. The second part holds as long as the local date of
  \<^verbatim>\<open>datetime.now()\<close> and the UTC date of SQLite change together; it fails for the rows of a
  local day that were stored under the other UTC date.
\<close>

definition day_pattern :: "clock \<Rightarrow> string \<Rightarrow> string" where
  "day_pattern clk prefix = prefix @ ''-'' @ strftime_ymd clk @ ''-''"

definition day_sequence :: "clock \<Rightarrow> string \<Rightarrow> nat \<Rightarrow> task list \<Rightarrow> bool" where
  "day_sequence clk prefix k rows =
     (map task_code (filter (\<lambda>t. sql_like_prefix (day_pattern clk prefix) (task_code t)) rows)
        = map (\<lambda>i. day_pattern clk prefix @ format_03d i) [1..<Suc k] \<and>
      (\<forall>t \<in> set rows. sql_like_prefix (day_pattern clk prefix) (task_code t) \<longrightarrow>
         sql_date (t_created_at t) = sql_date (sql_now clk)))"

text \<open>
  A creation request that can only fail on the code: the database is reachable, category
  and description are there, the city is absent or a string, and the row meets the
  \<^verbatim>\<open>CHECK\<close> lists and the foreign key.
\<close>

definition acceptable_request :: "db \<Rightarrow> pydict \<Rightarrow> nat \<Rightarrow> string \<Rightarrow> bool" where
  "acceptable_request d task_data creator c =
     (conn_ok d \<and>
      task_data ''category'' = Some (PStr c) \<and>
      (\<exists>desc. task_data ''description'' = Some desc \<and> desc \<noteq> PNone) \<and>
      (\<exists>city. dict_get task_data ''customer_city'' (PStr []) = PStr city) \<and>
      dict_get task_data ''task_type'' (PStr ''technical_task'')
        \<in> {PStr ''technical_task'', PStr ''support_ticket''} \<and>
      dict_get task_data ''company_type'' PNone \<in> {PNone, PStr ''SARL'', PStr ''ZF''} \<and>
      dict_get task_data ''priority'' (PStr ''normal'')
        \<in> {PNone, PStr ''normal'', PStr ''high'', PStr ''critical''} \<and>
      creator \<in> set (map u_id (users d)))"

text \<open>A code that \<^verbatim>\<open>_generate_task_code\<close> can produce.\<close>

definition generated_code :: "string \<Rightarrow> bool" where
  "generated_code code = (\<exists>clk rows c. generate_task_code clk rows (PStr c) = Inr code)"

text \<open>The button tokens that some branch of \<^verbatim>\<open>handle_callback\<close> recognises.\<close>

definition catalog_token :: "string \<Rightarrow> bool" where
  "catalog_token s =
     (s = ''start_registration'' \<or> s = ''learn_more'' \<or> s = ''upload_search'' \<or> s = ''noop'' \<or>
      list_ex (startswith s)
        [''tasks_filter_'', ''cat_'', ''city_'', ''company_'', ''priority_'', ''act_'',
         ''upload_task_'', ''stats_'', ''schedule_'', ''settings_'', ''help_''])"

section \<open>Sample data\<close>

text \<open>
  A clock reading, three accounts (an active technician, a pending account, an active
  commercial), a creation request and a day's rows, on which the statements below are run.
\<close>

definition sample_clock :: clock where
  "sample_clock =
     \<lparr>py_year = 2026, py_month = 11, py_day = 4,
      sql_now = ''2026-11-04 09:30:00'', sql_week_ago = ''2026-10-28''\<rparr>"

definition sample_user :: "nat \<Rightarrow> string \<Rightarrow> string \<Rightarrow> string option \<Rightarrow> user" where
  "sample_user i tid st r =
     \<lparr>u_id = i, telegram_id = tid, username = None, full_name = Some ''Amal'',
      u_status = st, role = r, u_created_at = ''2026-10-01 08:00:00'', last_login = None\<rparr>"

definition sample_task :: "nat \<Rightarrow> string \<Rightarrow> task" where
  "sample_task i code =
     \<lparr>t_id = i, task_code = code, task_type = PStr ''technical_task'',
      category = PStr ''repair'', description = PStr ''replace pump seal'',
      customer_name = PNone, customer_city = PNone, customer_area = PNone,
      travel_required = True, company_type = PNone, t_status = ''to_do'',
      priority = PStr ''normal'', created_by = 1,
      t_created_at = ''2026-11-04 08:00:00'', completion_date = None\<rparr>"

definition sample_activity :: "nat \<Rightarrow> nat \<Rightarrow> string \<Rightarrow> string \<Rightarrow> activity_log" where
  "sample_activity i owner ty start =
     \<lparr>a_id = i, a_user_id = owner, activity_type = ty, a_description = None,
      start_time = start, end_time = None, duration_minutes = Some 45, a_task_id = None,
      location_notes = None, billable = True, a_company_type = None,
      a_created_at = start\<rparr>"

definition sample_db :: db where
  "sample_db =
     \<lparr>conn_ok = True,
      unique_usernames = True,
      users = [sample_user 1 ''1001'' ''active'' (Some ''technician''),
               sample_user 2 ''1002'' ''pending'' None,
               sample_user 3 ''1003'' ''active'' (Some ''commercial'')],
      tasks = [sample_task 1 ''INST-261104-001''],
      activity_logs = [sample_activity 1 1 ''repair'' ''2026-11-03T10:00:00'',
                       sample_activity 2 3 ''travel_time'' ''2026-11-03T11:00:00'',
                       sample_activity 3 1 ''email_work'' ''2026-11-02T09:00:00''],
      files = [],
      user_seq = 3,
      task_seq = 1,
      db_log = []\<rparr>"


text \<open>
  A later reading of the clocks on the same local day, on a server whose local time is
  behind UTC: the local date is still 4 November, SQLite's date is already the 5th.
\<close>

definition late_clock :: clock where
  "late_clock = sample_clock\<lparr>sql_now := ''2026-11-05 00:30:00'', sql_week_ago := ''2026-10-29''\<rparr>"

definition sample_request :: pydict where
  "sample_request =
     [''category'' \<mapsto> PStr ''Repair'',
      ''description'' \<mapsto> PStr ''replace pump seal'',
      ''customer_city'' \<mapsto> PStr ''Tanger'',
      ''travel_required'' \<mapsto> PBool True]"

text \<open>The rows of a day on which \<open>k\<close> repairs were created.\<close>

definition day_rows :: "nat \<Rightarrow> task list" where
  "day_rows k =
     map (\<lambda>i. sample_task i (day_pattern sample_clock ''REP'' @ format_03d i)) [1..<Suc k]"

definition sample_state :: bot_state where
  "sample_state =
     \<lparr>bdb = sample_db,
      active_sessions =
        [3 \<mapsto> [''action'' \<mapsto> PStr ''log_activity'',
                 ''activity_type'' \<mapsto> PStr ''repair'',
                 ''step'' \<mapsto> PStr ''description'']]\<rparr>"

definition sample_message :: "string \<Rightarrow> message" where
  "sample_message tid = \<lparr>msg_from = tid, msg_full_name = ''Amal'', msg_username = None\<rparr>"

definition sample_callback :: "string \<Rightarrow> string \<Rightarrow> callback" where
  "sample_callback tid data =
     \<lparr>cb_from = tid, cb_data = Some data, cb_message = sample_message ''9000''\<rparr>"

section \<open>Digits and formats\<close>

lemma of_char_digit_char: "d < 10 \<Longrightarrow> (of_char (digit_char d) :: nat) = 48 + d"
  by (simp add: digit_char_def)

lemma is_digit_digit_char: "d < 10 \<Longrightarrow> is_digit (digit_char d)"
  by (simp add: is_digit_def of_char_digit_char)

lemma nat_of_digits_snoc:
  "nat_of_digits (s @ [c]) = 10 * nat_of_digits s + ((of_char c :: nat) - 48)"
  by (simp add: nat_of_digits_def)

lemma nat_of_digits_str_of_nat: "nat_of_digits (str_of_nat n) = n"
proof (induction n rule: str_of_nat.induct)
  case (1 n)
  show ?case
  proof (cases "n < 10")
    case True
    then show ?thesis
      by (simp add: str_of_nat.simps [of n] nat_of_digits_def of_char_digit_char)
  next
    case False
    with 1 have "nat_of_digits (str_of_nat (n div 10)) = n div 10" by simp
    with False show ?thesis
      by (simp add: str_of_nat.simps [of n] nat_of_digits_snoc of_char_digit_char)
  qed
qed

lemma nat_of_digits_zeros: "nat_of_digits (replicate k CHR ''0'' @ s) = nat_of_digits s"
  by (induction k) (simp_all add: nat_of_digits_def)

lemma nat_of_digits_zero_pad: "nat_of_digits (zero_pad w n) = n"
  by (simp add: zero_pad_def nat_of_digits_zeros nat_of_digits_str_of_nat)

lemma format_03d_inj: "format_03d m = format_03d n \<Longrightarrow> m = n"
  by (metis format_03d_def nat_of_digits_zero_pad)

lemma str_of_nat_digits: "c \<in> set (str_of_nat n) \<Longrightarrow> is_digit c"
proof (induction n rule: str_of_nat.induct)
  case (1 n)
  show ?case
  proof (cases "n < 10")
    case True
    with 1(2) show ?thesis
      by (simp add: str_of_nat.simps [of n] is_digit_digit_char)
  next
    case False
    with 1 show ?thesis
      by (auto simp add: str_of_nat.simps [of n] is_digit_digit_char)
  qed
qed

lemma is_digit_zero: "is_digit CHR ''0''"
  by (simp add: is_digit_def)

lemma zero_pad_digits: "c \<in> set (zero_pad w n) \<Longrightarrow> is_digit c"
  by (auto simp add: zero_pad_def is_digit_zero dest: str_of_nat_digits)

lemma str_of_nat_nonempty: "str_of_nat n \<noteq> []"
  by (subst str_of_nat.simps) simp

lemma length_str_of_nat_le:
  "n < 10 ^ k \<Longrightarrow> 0 < k \<Longrightarrow> length (str_of_nat n) \<le> k"
proof (induction n arbitrary: k rule: str_of_nat.induct)
  case (1 n)
  show ?case
  proof (cases "n < 10")
    case True
    with 1(3) show ?thesis by (simp add: str_of_nat.simps [of n] Suc_leI)
  next
    case False
    with 1(2,3) obtain j where k: "k = Suc j" and j: "0 < j"
      by (cases k; cases "k - 1") auto
    from 1(2) k have "n div 10 < 10 ^ j" by (simp add: less_mult_imp_div_less mult.commute)
    with 1(1) [OF False this j] False k show ?thesis
      by (simp add: str_of_nat.simps [of n])
  qed
qed

lemma length_str_of_nat_ge:
  "10 ^ k \<le> n \<Longrightarrow> k < length (str_of_nat n)"
proof (induction n arbitrary: k rule: str_of_nat.induct)
  case (1 n)
  show ?case
  proof (cases "n < 10")
    case True
    with 1(2) have "(10::nat) ^ k < 10 ^ 1" by simp
    then have "k < 1" by (rule power_less_imp_less_exp [rotated]) simp
    then have "k = 0" by simp
    then show ?thesis using str_of_nat_nonempty [of n] by simp
  next
    case False
    show ?thesis
    proof (cases k)
      case 0
      then show ?thesis using str_of_nat_nonempty [of n] by simp
    next
      case (Suc j)
      with 1(2) have "10 ^ j \<le> n div 10" by (simp add: less_eq_div_iff_mult_less_eq mult.commute)
      with 1(1) [OF False this] False Suc show ?thesis
        by (simp add: str_of_nat.simps [of n])
    qed
  qed
qed

lemma length_zero_pad: "length (zero_pad w n) = max w (length (str_of_nat n))"
  by (simp add: zero_pad_def)

lemma length_format_03d_small: "n < 1000 \<Longrightarrow> length (format_03d n) = 3"
  using length_str_of_nat_le [of n 3] by (simp add: format_03d_def length_zero_pad)

lemma format_03d_wide: "1000 \<le> n \<Longrightarrow> format_03d n = str_of_nat n \<and> 3 < length (format_03d n)"
  using length_str_of_nat_ge [of 3 n] by (simp add: format_03d_def zero_pad_def)

lemma format_03d_one: "format_03d 1 = ''001''"
  by code_simp

lemma length_strftime_ymd:
  "py_month clk < 100 \<Longrightarrow> py_day clk < 100 \<Longrightarrow> length (strftime_ymd clk) = 6"
  using length_str_of_nat_le [of "py_year clk mod 100" 2]
    length_str_of_nat_le [of "py_month clk" 2] length_str_of_nat_le [of "py_day clk" 2]
  by (simp add: strftime_ymd_def length_zero_pad)

section \<open>Registration\<close>

lemma find_append_none:
  "find P xs = None \<Longrightarrow> find P (xs @ ys) = find P ys"
  by (induction xs) (auto split: if_splits)





lemma account_status_appended:
  assumes "account_status d tid = None" and "users d' = users d @ [row]"
    and "telegram_id row = tid"
  shows "account_status d' tid = Some (u_status row)"
  using assms by (simp add: account_status_def find_append_none)






section \<open>The travel flag of a new task\<close>

lemma dict_get_upd_other: "k \<noteq> k' \<Longrightarrow> dict_get (d(k' \<mapsto> v)) k dflt = dict_get d k dflt"
  by (simp add: dict_get_def)

lemma create_task_ignores_travel_flag:
  "create_task clk (task_data(''travel_required'' \<mapsto> v)) creator d
     = create_task clk task_data creator d"
  by (simp add: create_task_def dict_get_upd_other Let_def split: sum.split option.split)

lemma create_task_row:
  assumes "create_task clk task_data creator d = (Some code, d')"
  shows "\<exists>row city. tasks d' = tasks d @ [row] \<and> task_code row = code \<and>
           py_lower (dict_get task_data ''customer_city'' (PStr [])) = Inr city \<and>
           travel_required row = (city \<noteq> ''tanger'')"
  using assms
  by (auto simp add: create_task_def Let_def logged_def
      split: if_splits sum.splits option.splits)

text \<open>
  Claim C9. A task that \<^verbatim>\<open>create_task\<close> stores has \<open>travel_required\<close> set exactly
  when the lowercased city of the request differs from \<^verbatim>\<open>tanger\<close>; a request without a
  city is stored as requiring travel (a stored request has no city or a string city), and
  a \<^verbatim>\<open>travel_required\<close> entry of the request changes nothing.
\<close>

theorem travel_required_from_city:
  assumes "create_task clk task_data creator d = (Some code, d')"
  shows "(\<exists>row. tasks d' = tasks d @ [row] \<and> task_code row = code \<and>
            (task_data ''customer_city'' = None \<longrightarrow> travel_required row) \<and>
            (\<forall>s. task_data ''customer_city'' = Some (PStr s) \<longrightarrow>
                 travel_required row = (lower s \<noteq> ''tanger''))) \<and>
         (task_data ''customer_city'' = None \<or> (\<exists>s. task_data ''customer_city'' = Some (PStr s))) \<and>
         create_task clk (task_data(''travel_required'' \<mapsto> v)) creator d
           = create_task clk task_data creator d"
proof -
  from create_task_row [OF assms] obtain row city where
    row: "tasks d' = tasks d @ [row]" "task_code row = code"
    and city: "py_lower (dict_get task_data ''customer_city'' (PStr [])) = Inr city"
    and flag: "travel_required row = (city \<noteq> ''tanger'')"
    by blast
  have absent: "task_data ''customer_city'' = None \<Longrightarrow> city = []"
    using city by (simp add: dict_get_def py_lower_def lower_def)
  have present: "task_data ''customer_city'' = Some (PStr s) \<Longrightarrow> city = lower s" for s
    using city by (simp add: dict_get_def py_lower_def)
  have shape: "task_data ''customer_city'' = None \<or> (\<exists>s. task_data ''customer_city'' = Some (PStr s))"
    using city by (auto simp add: dict_get_def py_lower_def split: option.splits pyval.splits)
  from row flag absent present have
    "\<exists>row. tasks d' = tasks d @ [row] \<and> task_code row = code \<and>
            (task_data ''customer_city'' = None \<longrightarrow> travel_required row) \<and>
            (\<forall>s. task_data ''customer_city'' = Some (PStr s) \<longrightarrow>
                 travel_required row = (lower s \<noteq> ''tanger''))"
    by auto
  with shape show ?thesis by (simp add: create_task_ignores_travel_flag)
qed

theorem travel_required_from_city_witness:
  "create_task sample_clock sample_request 1 sample_db
     = (Some ''REP-261104-001'', snd (create_task sample_clock sample_request 1 sample_db)) \<and>
   sample_request ''customer_city'' = Some (PStr ''Tanger'') \<and>
   sample_request ''travel_required'' = Some (PBool True) \<and>
   \<not> travel_required (last (tasks (snd (create_task sample_clock sample_request 1 sample_db))))"
proof -
  have run: "create_task sample_clock sample_request 1 sample_db
     = (Some ''REP-261104-001'', snd (create_task sample_clock sample_request 1 sample_db))"
    by code_simp
  have city: "sample_request ''customer_city'' = Some (PStr ''Tanger'')"
    by (simp add: sample_request_def)
  have low: "lower ''Tanger'' = ''tanger''" by code_simp
  from travel_required_from_city [OF run, of PNone] city low
  have "\<not> travel_required (last (tasks (snd (create_task sample_clock sample_request 1 sample_db))))"
    by auto
  with run city show ?thesis by (simp add: sample_request_def)
qed

section \<open>Callers without an active account\<close>

lemma check_user_access_inactive:
  assumes "account_status d tid \<noteq> Some ''active''"
  shows "check_user_access clk tid d = (None, if conn_ok d then logged (Read Users) d else d)"
  using assms
  by (auto simp add: check_user_access_def get_user_by_telegram_id_def account_status_def
      split: option.splits)

lemma require_auth_inactive:
  assumes "account_status (bdb st) (msg_from m) \<noteq> Some ''active''"
  shows "require_auth clk m st = (None, [Message_answer Access_denied_message], after_lookup st)"
  by (simp add: require_auth_def check_user_access_inactive [OF assms] after_lookup_def)

lemma handle_menu_inactive:
  assumes "account_status (bdb st) (msg_from m) \<noteq> Some ''active''"
  shows "handle_menu clk e m st = ([Message_answer Access_denied_message], after_lookup st)"
  by (cases e)
    (simp_all add: handle_my_tasks_def handle_new_task_def handle_log_activity_def
      handle_my_stats_def handle_upload_file_def handle_schedule_def handle_settings_def
      handle_file_upload_def require_auth_inactive [OF assms])

lemma handle_callback_inactive:
  assumes "account_status (bdb st) (cb_from cb) \<noteq> Some ''active''"
    and "cb_data cb \<noteq> Some ''start_registration''" and "cb_data cb \<noteq> Some ''learn_more''"
  shows "handle_callback clk cb st
           = ([Callback_answer (Some ''Access denied. Please register first.'') True],
              after_lookup st)"
  using assms(2,3)
  by (simp add: handle_callback_def check_user_access_inactive [OF assms(1)] after_lookup_def)

lemma after_lookup_untouched:
  "same_rows (bdb st) (bdb (after_lookup st))"
  "active_sessions (after_lookup st) = active_sessions st"
  "set (db_log (bdb (after_lookup st))) \<subseteq> set (db_log (bdb st)) \<union> {Read Users}"
  by (auto simp add: after_lookup_def same_rows_def logged_def)

text \<open>
  Claim C1. For a caller whose account is not active (pending, rejected or not registered),
  whatever its role: every menu handler answers with the access-denied message, and every
  callback other than the two registration callbacks is answered with the access-denied
  alert. The state afterwards is the one before plus the lookup of the caller in
  \<^verbatim>\<open>users\<close>: no row of any table and no session has changed, and nothing but \<^verbatim>\<open>users\<close> was
  read.
\<close>

theorem inactive_caller_denied:
  assumes "account_status (bdb st) tid \<noteq> Some ''active''"
  shows "(msg_from m = tid \<longrightarrow>
            handle_menu clk e m st = ([Message_answer Access_denied_message], after_lookup st)) \<and>
         (cb_from cb = tid \<and> cb_data cb \<noteq> Some ''start_registration'' \<and>
          cb_data cb \<noteq> Some ''learn_more'' \<longrightarrow>
            handle_callback clk cb st
              = ([Callback_answer (Some ''Access denied. Please register first.'') True],
                 after_lookup st)) \<and>
         same_rows (bdb st) (bdb (after_lookup st)) \<and>
         active_sessions (after_lookup st) = active_sessions st \<and>
         set (db_log (bdb (after_lookup st))) \<subseteq> set (db_log (bdb st)) \<union> {Read Users}"
  using assms handle_menu_inactive [of st m clk e] handle_callback_inactive [of st cb clk]
    after_lookup_untouched [of st]
  by blast

theorem inactive_caller_denied_witness:
  "account_status (bdb sample_state) ''1002'' = Some ''pending'' \<and>
   handle_menu sample_clock My_stats (sample_message ''1002'') sample_state
     = ([Message_answer Access_denied_message], after_lookup sample_state) \<and>
   handle_callback sample_clock (sample_callback ''1002'' ''act_repair'') sample_state
     = ([Callback_answer (Some ''Access denied. Please register first.'') True],
        after_lookup sample_state) \<and>
   db_log (bdb (after_lookup sample_state)) = [Read Users]"
proof -
  have st: "account_status (bdb sample_state) ''1002'' = Some ''pending''" by code_simp
  then have hyp: "account_status (bdb sample_state) ''1002'' \<noteq> Some ''active''" by simp
  have m: "msg_from (sample_message ''1002'') = ''1002''" by (simp add: sample_message_def)
  have cb: "cb_from (sample_callback ''1002'' ''act_repair'') = ''1002'' \<and>
            cb_data (sample_callback ''1002'' ''act_repair'') \<noteq> Some ''start_registration'' \<and>
            cb_data (sample_callback ''1002'' ''act_repair'') \<noteq> Some ''learn_more''"
    by (simp add: sample_callback_def)
  have lg: "db_log (bdb (after_lookup sample_state)) = [Read Users]" by code_simp
  from inactive_caller_denied [OF hyp, of "sample_message ''1002''" sample_clock My_stats
      "sample_callback ''1002'' ''act_repair''"] m cb st lg
  show ?thesis by blast
qed

section \<open>Activity rows stay with their owner\<close>

lemma sql_limit_subset: "set (sql_limit n xs) \<subseteq> set xs"
  by (auto simp add: sql_limit_def dest: in_set_takeD)

lemma get_user_activities_owner:
  "a \<in> set (fst (get_user_activities uid limit d)) \<Longrightarrow> a_user_id a = uid"
  using sql_limit_subset [of limit "rev (sort_key start_time (filter (\<lambda>a. a_user_id a = uid) (activity_logs d)))"]
  by (auto simp add: get_user_activities_def split: if_splits)

lemma get_user_activities_own_rows:
  "fst (get_user_activities uid limit (d\<lparr>activity_logs := filter (\<lambda>a. a_user_id a = uid) (activity_logs d)\<rparr>))
     = fst (get_user_activities uid limit d)"
  by (simp add: get_user_activities_def)

lemma get_user_stats_own_rows:
  "fst (get_user_stats clk uid (d\<lparr>activity_logs := filter (\<lambda>a. a_user_id a = uid) (activity_logs d)\<rparr>))
     = fst (get_user_stats clk uid d)"
  by (simp add: get_user_stats_def Let_def)

lemma check_user_access_found:
  "check_user_access clk tid d = (Some u, d1) \<Longrightarrow>
     find (\<lambda>u. telegram_id u = tid) (users d) = Some u \<and> activity_logs d1 = activity_logs d"
  by (auto simp add: check_user_access_def get_user_by_telegram_id_def update_last_login_def
      logged_def split: if_splits option.splits)

lemma get_all_tasks_activity_logs:
  "activity_logs (snd (get_all_tasks f d)) = activity_logs d"
  by (simp add: get_all_tasks_def logged_def)

lemma handle_schedule_activities:
  assumes "r \<in> set (fst (handle_schedule clk m st))" and "a \<in> set (reply_activities r)"
  shows "\<exists>u. find (\<lambda>u. telegram_id u = msg_from m) (users (bdb st)) = Some u \<and> a_user_id a = u_id u"
proof (cases "check_user_access clk (msg_from m) (bdb st)")
  case (Pair uo d1)
  show ?thesis
  proof (cases uo)
    case None
    with Pair assms show ?thesis by (auto simp add: handle_schedule_def require_auth_def)
  next
    case (Some u)
    with Pair have found: "find (\<lambda>u. telegram_id u = msg_from m) (users (bdb st)) = Some u"
      using check_user_access_found by blast
    obtain ts d2 where ts: "get_all_tasks None d1 = (ts, d2)" by (cases "get_all_tasks None d1")
    obtain as d3 where as: "get_user_activities (u_id u) 5 d2 = (as, d3)"
      by (cases "get_user_activities (u_id u) 5 d2")
    from assms Pair Some ts as have "a \<in> set (take 3 as)"
      by (auto simp add: handle_schedule_def require_auth_def format_recent_activities_def)
    then have "a \<in> set (fst (get_user_activities (u_id u) 5 d2))"
      using as by (auto dest: in_set_takeD)
    then have "a_user_id a = u_id u" by (rule get_user_activities_owner)
    with found show ?thesis by blast
  qed
qed

lemma handle_menu_activities:
  assumes "r \<in> set (fst (handle_menu clk e m st))" and "a \<in> set (reply_activities r)"
  shows "\<exists>u. find (\<lambda>u. telegram_id u = msg_from m) (users (bdb st)) = Some u \<and> a_user_id a = u_id u"
proof (cases e)
  case Schedule
  with assms show ?thesis using handle_schedule_activities by simp
qed (use assms in \<open>auto simp add: handle_my_tasks_def handle_new_task_def handle_log_activity_def
      handle_my_stats_def handle_upload_file_def handle_settings_def
      handle_file_upload_def require_auth_def split: prod.splits option.splits if_splits\<close>)

lemma authenticated_callback_activities:
  assumes "authenticated_callback clk data u st = Inr x" and "r \<in> set (fst x)"
  shows "reply_activities r = []"
proof (cases data)
  case None
  with assms show ?thesis by (simp add: authenticated_callback_def)
next
  case (Some s)
  have a: "\<And>r. r \<in> set (fst (handle_task_filter s u st)) \<Longrightarrow> reply_activities r = []"
    by (auto simp add: handle_task_filter_def Let_def split: prod.splits if_splits)
  have b: "\<And>r. r \<in> set (fst (handle_category_selection s u st)) \<Longrightarrow> reply_activities r = []"
    by (auto simp add: handle_category_selection_def Let_def split: if_splits)
  have c: "\<And>r. r \<in> set (fst (handle_activity_selection s u st)) \<Longrightarrow> reply_activities r = []"
    by (auto simp add: handle_activity_selection_def Let_def)
  have d: "\<And>a b r. handle_upload_task_selection s u st = Inr (a, b) \<Longrightarrow> r \<in> set a
             \<Longrightarrow> reply_activities r = []"
    by (auto simp add: handle_upload_task_selection_def
        split: sum.splits prod.splits option.splits)
  have e: "\<And>r. r \<in> set (fst (handle_stats_action clk s u st)) \<Longrightarrow> reply_activities r = []"
    by (auto simp add: handle_stats_action_def Let_def split: prod.splits if_splits)
  have f: "\<And>t r. r \<in> set (fst (placeholder t st)) \<Longrightarrow> reply_activities r = []"
    by (simp add: placeholder_def)
  from assms Some show ?thesis
    by (auto simp add: authenticated_callback_def then_answer_def
        split: if_splits sum.splits dest: a b c d e f)
qed

lemma cmd_register_activities:
  "r \<in> set (fst (cmd_register clk m st)) \<Longrightarrow> reply_activities r = []"
  by (auto simp add: cmd_register_def Let_def split: prod.splits option.splits if_splits bool.splits)

lemma handle_callback_activities:
  assumes "r \<in> set (fst (handle_callback clk cb st))"
  shows "reply_activities r = []"
  using assms cmd_register_activities [of _ clk "cb_message cb" st]
  by (auto simp add: handle_callback_def
      split: if_splits prod.splits option.splits sum.splits
      dest: authenticated_callback_activities)

lemma check_user_access_conn:
  "check_user_access clk tid d = (Some u, d1) \<Longrightarrow> conn_ok d \<and> conn_ok d1"
  by (auto simp add: check_user_access_def get_user_by_telegram_id_def update_last_login_def
      logged_def split: if_splits option.splits)

lemma get_user_stats_same_logs:
  "conn_ok d1 = conn_ok d \<Longrightarrow> activity_logs d1 = activity_logs d \<Longrightarrow>
     fst (get_user_stats clk uid d1) = fst (get_user_stats clk uid d)"
  by (simp add: get_user_stats_def Let_def)

lemma get_user_stats_after_access:
  assumes "check_user_access clk tid d = (Some u, d1)"
  shows "fst (get_user_stats clk uid d1) = fst (get_user_stats clk uid d)"
  using check_user_access_conn [OF assms] check_user_access_found [OF assms]
  by (simp add: get_user_stats_same_logs)

lemma handle_my_stats_user_stats:
  assumes "r \<in> set (fst (handle_my_stats clk m st))" and "s \<in> set (reply_user_stats r)"
  shows "\<exists>u. find (\<lambda>u. telegram_id u = msg_from m) (users (bdb st)) = Some u \<and>
             s = fst (get_user_stats clk (u_id u) (bdb st))"
proof (cases "check_user_access clk (msg_from m) (bdb st)")
  case (Pair uo d1)
  show ?thesis
  proof (cases uo)
    case None
    with Pair assms show ?thesis by (auto simp add: handle_my_stats_def require_auth_def)
  next
    case (Some u)
    with Pair have acc: "check_user_access clk (msg_from m) (bdb st) = (Some u, d1)" by simp
    from assms acc have "s = fst (get_user_stats clk (u_id u) d1)"
      by (auto simp add: handle_my_stats_def require_auth_def split: prod.splits)
    with get_user_stats_after_access [OF acc] check_user_access_found [OF acc]
    show ?thesis by simp
  qed
qed

lemma handle_menu_user_stats:
  assumes "r \<in> set (fst (handle_menu clk e m st))" and "s \<in> set (reply_user_stats r)"
  shows "\<exists>u. find (\<lambda>u. telegram_id u = msg_from m) (users (bdb st)) = Some u \<and>
             s = fst (get_user_stats clk (u_id u) (bdb st))"
proof (cases e)
  case My_stats
  with assms show ?thesis using handle_my_stats_user_stats by simp
qed (use assms in \<open>auto simp add: handle_my_tasks_def handle_new_task_def handle_log_activity_def
      handle_schedule_def handle_upload_file_def handle_settings_def
      handle_file_upload_def require_auth_def split: prod.splits option.splits if_splits\<close>)

lemma authenticated_callback_user_stats:
  assumes "authenticated_callback clk data u st = Inr x" and "r \<in> set (fst x)"
    and "s \<in> set (reply_user_stats r)"
  shows "s = fst (get_user_stats clk (u_id u) (bdb st))"
proof (cases data)
  case None
  with assms show ?thesis by (simp add: authenticated_callback_def)
next
  case (Some t)
  have a: "\<And>r. r \<in> set (fst (handle_task_filter t u st)) \<Longrightarrow> s \<in> set (reply_user_stats r)
             \<Longrightarrow> s = fst (get_user_stats clk (u_id u) (bdb st))"
    by (auto simp add: handle_task_filter_def Let_def split: prod.splits if_splits)
  have b: "\<And>r. r \<in> set (fst (handle_category_selection t u st)) \<Longrightarrow> s \<in> set (reply_user_stats r)
             \<Longrightarrow> s = fst (get_user_stats clk (u_id u) (bdb st))"
    by (auto simp add: handle_category_selection_def Let_def split: if_splits)
  have c: "\<And>r. r \<in> set (fst (handle_activity_selection t u st)) \<Longrightarrow> s \<in> set (reply_user_stats r)
             \<Longrightarrow> s = fst (get_user_stats clk (u_id u) (bdb st))"
    by (auto simp add: handle_activity_selection_def Let_def)
  have d: "\<And>a b r. handle_upload_task_selection t u st = Inr (a, b) \<Longrightarrow> r \<in> set a
             \<Longrightarrow> s \<in> set (reply_user_stats r)
             \<Longrightarrow> s = fst (get_user_stats clk (u_id u) (bdb st))"
    by (auto simp add: handle_upload_task_selection_def
        split: sum.splits prod.splits option.splits)
  have e: "\<And>r. r \<in> set (fst (handle_stats_action clk t u st)) \<Longrightarrow> s \<in> set (reply_user_stats r)
             \<Longrightarrow> s = fst (get_user_stats clk (u_id u) (bdb st))"
    by (auto simp add: handle_stats_action_def Let_def split: prod.splits if_splits)
  have f: "\<And>t r. r \<in> set (fst (placeholder t st)) \<Longrightarrow> s \<in> set (reply_user_stats r)
             \<Longrightarrow> s = fst (get_user_stats clk (u_id u) (bdb st))"
    by (simp add: placeholder_def)
  from assms Some show ?thesis
    by (auto simp add: authenticated_callback_def then_answer_def
        split: if_splits sum.splits intro: a b c d e f)
qed

lemma cmd_register_user_stats:
  "r \<in> set (fst (cmd_register clk m st)) \<Longrightarrow> reply_user_stats r = []"
  by (auto simp add: cmd_register_def Let_def split: prod.splits option.splits if_splits bool.splits)

lemma handle_callback_user_stats:
  assumes "r \<in> set (fst (handle_callback clk cb st))" and "s \<in> set (reply_user_stats r)"
  shows "\<exists>u. find (\<lambda>u. telegram_id u = cb_from cb) (users (bdb st)) = Some u \<and>
             s = fst (get_user_stats clk (u_id u) (bdb st))"
proof (cases "cb_data cb = Some ''start_registration'' \<or> cb_data cb = Some ''learn_more''")
  case True
  with assms cmd_register_user_stats [of _ clk "cb_message cb" st] show ?thesis
    by (auto simp add: handle_callback_def split: prod.splits)
next
  case False
  obtain uo d1 where acc: "check_user_access clk (cb_from cb) (bdb st) = (uo, d1)"
    by (cases "check_user_access clk (cb_from cb) (bdb st)")
  show ?thesis
  proof (cases uo)
    case None
    with assms False acc show ?thesis by (auto simp add: handle_callback_def)
  next
    case (Some u)
    with acc have acc': "check_user_access clk (cb_from cb) (bdb st) = (Some u, d1)" by simp
    from assms False acc' have "s = fst (get_user_stats clk (u_id u) d1)"
      by (auto simp add: handle_callback_def split: sum.splits
          dest: authenticated_callback_user_stats)
    with get_user_stats_after_access [OF acc'] check_user_access_found [OF acc']
    show ?thesis by simp
  qed
qed

text \<open>
  Claim C2. Every row that \<^verbatim>\<open>get_user_activities\<close> returns belongs to the requested
  account; the listing and the personal statistics are the same when every other account's
  rows are removed from \<^verbatim>\<open>activity_logs\<close>, so only the account's own rows contribute. In
  every reply of a menu handler or of \<^verbatim>\<open>handle_callback\<close>, the activity rows shown belong to
  the account of the caller, and the personal statistics shown are those that
  \<^verbatim>\<open>get_user_stats\<close> computes for the id of the caller's account.
\<close>

theorem activity_reads_owner_scoped:
  "(\<forall>a \<in> set (fst (get_user_activities uid limit d)). a_user_id a = uid) \<and>
   fst (get_user_activities uid limit
          (d\<lparr>activity_logs := filter (\<lambda>a. a_user_id a = uid) (activity_logs d)\<rparr>))
     = fst (get_user_activities uid limit d) \<and>
   fst (get_user_stats clk uid
          (d\<lparr>activity_logs := filter (\<lambda>a. a_user_id a = uid) (activity_logs d)\<rparr>))
     = fst (get_user_stats clk uid d) \<and>
   (\<forall>r \<in> set (fst (handle_menu clk e m st)). \<forall>a \<in> set (reply_activities r).
      \<exists>u. find (\<lambda>u. telegram_id u = msg_from m) (users (bdb st)) = Some u \<and>
          a_user_id a = u_id u) \<and>
   (\<forall>r \<in> set (fst (handle_callback clk cb st)). reply_activities r = []) \<and>
   (\<forall>r \<in> set (fst (handle_menu clk e m st)). \<forall>s \<in> set (reply_user_stats r).
      \<exists>u. find (\<lambda>u. telegram_id u = msg_from m) (users (bdb st)) = Some u \<and>
          s = fst (get_user_stats clk (u_id u) (bdb st))) \<and>
   (\<forall>r \<in> set (fst (handle_callback clk cb st)). \<forall>s \<in> set (reply_user_stats r).
      \<exists>u. find (\<lambda>u. telegram_id u = cb_from cb) (users (bdb st)) = Some u \<and>
          s = fst (get_user_stats clk (u_id u) (bdb st)))"
  using get_user_activities_owner [of _ uid limit d] get_user_activities_own_rows [of uid limit d]
    get_user_stats_own_rows [of clk uid d] handle_menu_activities [of _ clk e m st]
    handle_callback_activities [of _ clk cb st] handle_menu_user_stats [of _ clk e m st]
    handle_callback_user_stats [of _ clk cb st]
  by blast

theorem activity_reads_owner_scoped_witness:
  "map a_user_id (activity_logs sample_db) = [1, 3, 1] \<and>
   map a_id (fst (get_user_activities 1 50 sample_db)) = [1, 3] \<and>
   list_all (\<lambda>a. a_user_id a = 1) (fst (get_user_activities 1 50 sample_db)) \<and>
   map_option total_activities (fst (get_user_stats sample_clock 1 sample_db)) = Some 2 \<and>
   map a_id (concat (map reply_activities
     (fst (handle_menu sample_clock Schedule (sample_message ''1001'') sample_state)))) = [1, 3] \<and>
   list_all (\<lambda>a. a_user_id a = 1) (concat (map reply_activities
     (fst (handle_menu sample_clock Schedule (sample_message ''1001'') sample_state)))) \<and>
   map (map_option total_activities) (concat (map reply_user_stats
     (fst (handle_callback sample_clock (sample_callback ''1003'' ''stats_personal'') sample_state))))
     = [Some 1] \<and>
   list_all (\<lambda>s. s = fst (get_user_stats sample_clock 3 sample_db)) (concat (map reply_user_stats
     (fst (handle_callback sample_clock (sample_callback ''1003'' ''stats_personal'') sample_state))))"
proof -
  have l: "map a_id (fst (get_user_activities 1 50 sample_db)) = [1, 3]" by code_simp
  have o: "map a_user_id (activity_logs sample_db) = [1, 3, 1]" by code_simp
  have s: "map_option total_activities (fst (get_user_stats sample_clock 1 sample_db)) = Some 2"
    by code_simp
  have u: "find (\<lambda>u. telegram_id u = msg_from (sample_message ''1001''))
             (users (bdb sample_state)) = Some (sample_user 1 ''1001'' ''active'' (Some ''technician''))"
    by code_simp
  have i: "u_id (sample_user 1 ''1001'' ''active'' (Some ''technician'')) = 1"
    by (simp add: sample_user_def)
  have u3: "find (\<lambda>u. telegram_id u = cb_from (sample_callback ''1003'' ''stats_personal''))
             (users (bdb sample_state)) = Some (sample_user 3 ''1003'' ''active'' (Some ''commercial''))"
    by code_simp
  have i3: "u_id (sample_user 3 ''1003'' ''active'' (Some ''commercial'')) = 3"
    by (simp add: sample_user_def)
  have b: "bdb sample_state = sample_db" by (simp add: sample_state_def)
  have n: "map a_id (concat (map reply_activities
     (fst (handle_menu sample_clock Schedule (sample_message ''1001'') sample_state)))) = [1, 3]"
    by code_simp
  have t: "map (map_option total_activities) (concat (map reply_user_stats
     (fst (handle_callback sample_clock (sample_callback ''1003'' ''stats_personal'') sample_state))))
     = [Some 1]"
    by code_simp
  note inst = activity_reads_owner_scoped [of 1 50 sample_db sample_clock Schedule
      "sample_message ''1001''" sample_state "sample_callback ''1003'' ''stats_personal''"]
  from inst u i
  have "(\<forall>a \<in> set (fst (get_user_activities 1 50 sample_db)). a_user_id a = 1) \<and>
    (\<forall>r \<in> set (fst (handle_menu sample_clock Schedule (sample_message ''1001'') sample_state)).
      \<forall>a \<in> set (reply_activities r). a_user_id a = 1)"
    by fastforce
  then have rows: "list_all (\<lambda>a. a_user_id a = 1) (fst (get_user_activities 1 50 sample_db)) \<and>
    list_all (\<lambda>a. a_user_id a = 1) (concat (map reply_activities
     (fst (handle_menu sample_clock Schedule (sample_message ''1001'') sample_state))))"
    by (auto simp add: list_all_iff)
  from inst u3 i3 b
  have "\<forall>r \<in> set (fst (handle_callback sample_clock (sample_callback ''1003'' ''stats_personal'')
            sample_state)).
      \<forall>s \<in> set (reply_user_stats r). s = fst (get_user_stats sample_clock 3 sample_db)"
    by fastforce
  then have stats: "list_all (\<lambda>s. s = fst (get_user_stats sample_clock 3 sample_db))
     (concat (map reply_user_stats
       (fst (handle_callback sample_clock (sample_callback ''1003'' ''stats_personal'') sample_state))))"
    by (auto simp add: list_all_iff)
  from l o s n t rows stats show ?thesis by blast
qed

section \<open>Task codes: format and sequence\<close>

lemma sql_like_prefix_self: "sql_like_prefix pat (pat @ x)"
  by (simp add: sql_like_prefix_def)

lemma generate_task_code_str:
  "generate_task_code clk rows (PStr c)
     = Inr (day_pattern clk (category_prefix c) @
            format_03d (Suc (length (filter (counted_today clk (day_pattern clk (category_prefix c))) rows))))"
  by (simp add: generate_task_code_def py_lower_def category_prefix_def day_pattern_def Let_def)

lemma day_sequence_count:
  assumes "day_sequence clk p k rows"
  shows "length (filter (counted_today clk (day_pattern clk p)) rows) = k"
proof -
  have "filter (counted_today clk (day_pattern clk p)) rows
          = filter (\<lambda>t. sql_like_prefix (day_pattern clk p) (task_code t)) rows"
    using assms by (auto simp add: day_sequence_def counted_today_def intro: filter_cong)
  then have "length (filter (counted_today clk (day_pattern clk p)) rows)
          = length (map task_code (filter (\<lambda>t. sql_like_prefix (day_pattern clk p) (task_code t)) rows))"
    by simp
  also have "\<dots> = length (map (\<lambda>i. day_pattern clk p @ format_03d i) [1..<Suc k])"
    using assms by (simp add: day_sequence_def)
  finally show ?thesis by simp
qed

lemma day_sequence_fresh:
  assumes "day_sequence clk p k rows"
  shows "day_pattern clk p @ format_03d (Suc k) \<notin> set (map task_code rows)"
proof
  assume "day_pattern clk p @ format_03d (Suc k) \<in> set (map task_code rows)"
  then obtain t where t: "t \<in> set rows" "task_code t = day_pattern clk p @ format_03d (Suc k)"
    by auto
  then have "t \<in> set (filter (\<lambda>t. sql_like_prefix (day_pattern clk p) (task_code t)) rows)"
    by (simp add: sql_like_prefix_self)
  then have "task_code t
      \<in> task_code ` set (filter (\<lambda>t. sql_like_prefix (day_pattern clk p) (task_code t)) rows)"
    by (rule imageI)
  then have "task_code t
      \<in> set (map task_code (filter (\<lambda>t. sql_like_prefix (day_pattern clk p) (task_code t)) rows))"
    by (simp only: set_map)
  with assms have "task_code t \<in> set (map (\<lambda>i. day_pattern clk p @ format_03d i) [1..<Suc k])"
    by (simp add: day_sequence_def)
  with t(2) have "\<exists>i. i \<le> k \<and> format_03d (Suc k) = format_03d i"
    by (auto intro: less_imp_le)
  then obtain i where "i \<le> k" "format_03d (Suc k) = format_03d i" by blast
  then show False using format_03d_inj [of "Suc k" i] by simp
qed

lemma day_sequence_start:
  "(\<forall>t \<in> set rows. \<not> sql_like_prefix (day_pattern clk p) (task_code t))
     \<Longrightarrow> day_sequence clk p 0 rows"
  by (simp add: day_sequence_def)

lemma create_task_explicit:
  assumes req: "acceptable_request d td creator c"
    and inv: "day_sequence clk (category_prefix c) k (tasks d)"
  shows "\<exists>row. create_task clk td creator d
            = (Some (day_pattern clk (category_prefix c) @ format_03d (Suc k)),
               logged (Write Tasks)
                 ((logged (Read Tasks) d)\<lparr>tasks := tasks d @ [row], task_seq := t_id row\<rparr>)) \<and>
           task_code row = day_pattern clk (category_prefix c) @ format_03d (Suc k) \<and>
           t_created_at row = sql_now clk"
proof -
  let ?code = "day_pattern clk (category_prefix c) @ format_03d (Suc k)"
  from req obtain desc city where
    conn: "conn_ok d" and cat: "td ''category'' = Some (PStr c)"
    and desc: "td ''description'' = Some desc" "desc \<noteq> PNone"
    and city: "dict_get td ''customer_city'' (PStr []) = PStr city"
    and ty: "dict_get td ''task_type'' (PStr ''technical_task'')
               \<in> {PStr ''technical_task'', PStr ''support_ticket''}"
    and co: "dict_get td ''company_type'' PNone \<in> {PNone, PStr ''SARL'', PStr ''ZF''}"
    and pr: "dict_get td ''priority'' (PStr ''normal'')
               \<in> {PNone, PStr ''normal'', PStr ''high'', PStr ''critical''}"
    and cr: "creator \<in> set (map u_id (users d))"
    unfolding acceptable_request_def by blast
  have gen: "generate_task_code clk (tasks d) (dict_get td ''category'' PNone) = Inr ?code"
    using day_sequence_count [OF inv] by (simp add: dict_get_def cat generate_task_code_str)
  have fresh: "?code \<notin> set (map task_code (tasks d))"
    by (rule day_sequence_fresh [OF inv])
  let ?row = "\<lparr>t_id = next_id (task_seq d) (map t_id (tasks d)),
               task_code = ?code,
               task_type = dict_get td ''task_type'' (PStr ''technical_task''),
               category = PStr c,
               description = desc,
               customer_name = dict_get td ''customer_name'' PNone,
               customer_city = dict_get td ''customer_city'' PNone,
               customer_area = dict_get td ''customer_area'' PNone,
               travel_required = (lower city \<noteq> ''tanger''),
               company_type = dict_get td ''company_type'' PNone,
               t_status = ''to_do'',
               priority = dict_get td ''priority'' (PStr ''normal''),
               created_by = creator,
               t_created_at = sql_now clk,
               completion_date = None\<rparr>"
  have "create_task clk td creator d
          = (Some ?code,
             logged (Write Tasks)
               ((logged (Read Tasks) d)\<lparr>tasks := tasks d @ [?row], task_seq := t_id ?row\<rparr>))"
    using conn cat desc city ty co pr cr gen fresh
    by (simp add: create_task_def Let_def task_insert_ok_def logged_def py_lower_def)
  then show ?thesis by (intro exI [of _ ?row]) simp
qed

lemma create_task_next:
  assumes req: "acceptable_request d td creator c"
    and inv: "day_sequence clk (category_prefix c) k (tasks d)"
  shows "fst (create_task clk td creator d)
           = Some (day_pattern clk (category_prefix c) @ format_03d (Suc k))"
    and "day_sequence clk (category_prefix c) (Suc k) (tasks (snd (create_task clk td creator d)))"
    and "acceptable_request (snd (create_task clk td creator d)) td creator c"
proof -
  from create_task_explicit [OF req inv] obtain row where
    run: "create_task clk td creator d
            = (Some (day_pattern clk (category_prefix c) @ format_03d (Suc k)),
               logged (Write Tasks)
                 ((logged (Read Tasks) d)\<lparr>tasks := tasks d @ [row], task_seq := t_id row\<rparr>))"
    and row: "task_code row = day_pattern clk (category_prefix c) @ format_03d (Suc k)"
      "t_created_at row = sql_now clk"
    by blast
  from run show "fst (create_task clk td creator d)
           = Some (day_pattern clk (category_prefix c) @ format_03d (Suc k))" by simp
  from run row inv
  show "day_sequence clk (category_prefix c) (Suc k) (tasks (snd (create_task clk td creator d)))"
    by (auto simp add: day_sequence_def logged_def sql_like_prefix_self)
  from run req show "acceptable_request (snd (create_task clk td creator d)) td creator c"
    by (simp add: acceptable_request_def logged_def)
qed

lemma category_prefix_cases:
  "category_prefix c \<in> snd ` set category_prefixes \<or> category_prefix c = ''TASK''"
  "lower c \<notin> fst ` set category_prefixes \<Longrightarrow> category_prefix c = ''TASK''"
  "map_of category_prefixes (lower c) = Some p \<Longrightarrow> category_prefix c = p"
proof -
  show "category_prefix c \<in> snd ` set category_prefixes \<or> category_prefix c = ''TASK''"
    by (auto simp add: category_prefix_def split: option.splits dest: map_of_SomeD intro: rev_image_eqI)
  show "lower c \<notin> fst ` set category_prefixes \<Longrightarrow> category_prefix c = ''TASK''"
    by (simp add: category_prefix_def map_of_eq_None_iff [THEN iffD2])
  show "map_of category_prefixes (lower c) = Some p \<Longrightarrow> category_prefix c = p"
    by (simp add: category_prefix_def)
qed

lemma strftime_ymd_digits: "ch \<in> set (strftime_ymd clk) \<Longrightarrow> is_digit ch"
  by (auto simp add: strftime_ymd_def dest: zero_pad_digits)

lemma day_rows_sequence: "day_sequence sample_clock ''REP'' k (day_rows k)"
proof -
  have all: "\<forall>t \<in> set (day_rows k). sql_like_prefix (day_pattern sample_clock ''REP'') (task_code t)"
    by (simp add: day_rows_def sample_task_def sql_like_prefix_self)
  then have "filter (\<lambda>t. sql_like_prefix (day_pattern sample_clock ''REP'') (task_code t)) (day_rows k)
      = day_rows k"
    by (simp only: filter_True)
  moreover have "map task_code (day_rows k)
      = map (\<lambda>i. day_pattern sample_clock ''REP'' @ format_03d i) [1..<Suc k]"
    by (simp add: day_rows_def sample_task_def comp_def)
  moreover have "\<forall>t \<in> set (day_rows k). sql_date (t_created_at t) = sql_date (sql_now sample_clock)"
    by (simp add: day_rows_def sample_task_def sample_clock_def sql_date_def)
  ultimately show ?thesis by (simp add: day_sequence_def)
qed

lemma sample_request_acceptable:
  "acceptable_request (sample_db\<lparr>tasks := rows\<rparr>) sample_request 1 ''Repair''"
  by (simp add: acceptable_request_def sample_request_def sample_db_def sample_user_def
      dict_get_def)

lemma sample_prefix: "category_prefix ''Repair'' = ''REP''"
  by code_simp

text \<open>
  What holds while the local date and SQLite's date change together (\<open>day_sequence\<close>): for
  a request that the database accepts, on a day on which \<open>k\<close> codes of the category's
  prefix exist, \<^verbatim>\<open>create_task\<close> returns the prefix, the date as \<^verbatim>\<open>%y%m%d\<close> and the number
  \<open>k + 1\<close>, joined by dashes, and afterwards \<open>k + 1\<close> codes exist. The prefix comes from
  the fixed table, \<^verbatim>\<open>TASK\<close> for a category outside it; the date is six digits; the number
  is written in decimal, padded with zeros to three digits.
\<close>

lemma codes_while_dates_agree:
  assumes "acceptable_request d td creator c"
    and "day_sequence clk (category_prefix c) k (tasks d)"
  shows "fst (create_task clk td creator d)
           = Some (category_prefix c @ ''-'' @ strftime_ymd clk @ ''-'' @ format_03d (Suc k)) \<and>
         day_sequence clk (category_prefix c) (Suc k) (tasks (snd (create_task clk td creator d))) \<and>
         acceptable_request (snd (create_task clk td creator d)) td creator c \<and>
         (category_prefix c \<in> snd ` set category_prefixes \<or> category_prefix c = ''TASK'') \<and>
         (lower c \<notin> fst ` set category_prefixes \<longrightarrow> category_prefix c = ''TASK'') \<and>
         (\<forall>p. map_of category_prefixes (lower c) = Some p \<longrightarrow> category_prefix c = p) \<and>
         (py_month clk < 100 \<and> py_day clk < 100 \<longrightarrow> length (strftime_ymd clk) = 6) \<and>
         (\<forall>ch \<in> set (strftime_ymd clk). is_digit ch) \<and>
         (\<forall>ch \<in> set (format_03d (Suc k)). is_digit ch) \<and>
         nat_of_digits (format_03d (Suc k)) = Suc k \<and>
         (Suc k < 1000 \<longrightarrow> length (format_03d (Suc k)) = 3) \<and>
         (k = 0 \<longrightarrow> format_03d (Suc k) = ''001'') \<and>
         ((\<forall>t \<in> set rows. \<not> sql_like_prefix (day_pattern clk p') (task_code t))
            \<longrightarrow> day_sequence clk p' 0 rows)"
proof -
  have code: "fst (create_task clk td creator d)
           = Some (category_prefix c @ ''-'' @ strftime_ymd clk @ ''-'' @ format_03d (Suc k))"
    using create_task_next(1) [OF assms] by (simp add: day_pattern_def)
  have fmt: "(\<forall>ch \<in> set (format_03d (Suc k)). is_digit ch) \<and>
         nat_of_digits (format_03d (Suc k)) = Suc k \<and>
         (Suc k < 1000 \<longrightarrow> length (format_03d (Suc k)) = 3) \<and>
         (k = 0 \<longrightarrow> format_03d (Suc k) = ''001'')"
    using zero_pad_digits [of _ 3 "Suc k"] nat_of_digits_zero_pad [of 3 "Suc k"]
      length_format_03d_small [of "Suc k"] format_03d_one
    by (auto simp add: format_03d_def)
  have date: "(py_month clk < 100 \<and> py_day clk < 100 \<longrightarrow> length (strftime_ymd clk) = 6) \<and>
         (\<forall>ch \<in> set (strftime_ymd clk). is_digit ch)"
    using length_strftime_ymd [of clk] strftime_ymd_digits [of _ clk] by blast
  have pre: "(category_prefix c \<in> snd ` set category_prefixes \<or> category_prefix c = ''TASK'') \<and>
         (lower c \<notin> fst ` set category_prefixes \<longrightarrow> category_prefix c = ''TASK'') \<and>
         (\<forall>p. map_of category_prefixes (lower c) = Some p \<longrightarrow> category_prefix c = p)"
    using category_prefix_cases [of c] by blast
  from code create_task_next(2,3) [OF assms] fmt date pre day_sequence_start [of rows clk p']
  show ?thesis by blast
qed

lemma codes_while_dates_agree_example:
  "map task_code (tasks sample_db) = [''INST-261104-001''] \<and>
   fst (create_task sample_clock sample_request 1 sample_db) = Some ''REP-261104-001'' \<and>
   fst (create_task sample_clock sample_request 1
          (snd (create_task sample_clock sample_request 1 sample_db))) = Some ''REP-261104-002''"
proof -
  have req: "acceptable_request sample_db sample_request 1 ''Repair''"
    using sample_request_acceptable [of "tasks sample_db"] by simp
  have none: "\<forall>t \<in> set (tasks sample_db).
      \<not> sql_like_prefix (day_pattern sample_clock (category_prefix ''Repair'')) (task_code t)"
    by code_simp
  note first = codes_while_dates_agree [OF req, of sample_clock 0 "tasks sample_db"
      "category_prefix ''Repair''"]
  from first none have inv0: "day_sequence sample_clock (category_prefix ''Repair'') 0 (tasks sample_db)"
    by (simp add: day_sequence_def)
  note one = codes_while_dates_agree [OF req inv0, of "[]" "[]"]
  from one have req1: "acceptable_request (snd (create_task sample_clock sample_request 1 sample_db))
      sample_request 1 ''Repair''"
    and inv1: "day_sequence sample_clock (category_prefix ''Repair'') (Suc 0)
      (tasks (snd (create_task sample_clock sample_request 1 sample_db)))"
    by blast+
  note two = codes_while_dates_agree [OF req1 inv1, of "[]" "[]"]
  have c1: "category_prefix ''Repair'' @ ''-'' @ strftime_ymd sample_clock @ ''-'' @ format_03d (Suc 0)
      = ''REP-261104-001''" by code_simp
  have c2: "category_prefix ''Repair'' @ ''-'' @ strftime_ymd sample_clock @ ''-'' @ format_03d (Suc (Suc 0))
      = ''REP-261104-002''" by code_simp
  have rows: "map task_code (tasks sample_db) = [''INST-261104-001'']" by code_simp
  from one two c1 c2 rows show ?thesis by simp
qed

text \<open>
  Under the same condition, on a day on which 999 or more codes of a prefix exist, the
  next code carries the plain decimal number, which has more than three digits and reads
  back as \<open>k + 1\<close>; it equals no stored code and the creation succeeds.
\<close>

lemma wide_codes_while_dates_agree:
  assumes "acceptable_request d td creator c"
    and "day_sequence clk (category_prefix c) k (tasks d)"
    and "999 \<le> k"
  shows "fst (create_task clk td creator d)
           = Some (category_prefix c @ ''-'' @ strftime_ymd clk @ ''-'' @ str_of_nat (Suc k)) \<and>
         3 < length (str_of_nat (Suc k)) \<and>
         nat_of_digits (str_of_nat (Suc k)) = Suc k \<and>
         category_prefix c @ ''-'' @ strftime_ymd clk @ ''-'' @ str_of_nat (Suc k)
           \<notin> set (map task_code (tasks d)) \<and>
         (\<forall>i \<in> set [1..<Suc k].
            category_prefix c @ ''-'' @ strftime_ymd clk @ ''-'' @ format_03d i
              \<noteq> category_prefix c @ ''-'' @ strftime_ymd clk @ ''-'' @ str_of_nat (Suc k)) \<and>
         day_sequence clk (category_prefix c) (Suc k) (tasks (snd (create_task clk td creator d)))"
proof -
  from assms(3) have wide: "format_03d (Suc k) = str_of_nat (Suc k)" "3 < length (str_of_nat (Suc k))"
    using format_03d_wide [of "Suc k"] by auto
  have code: "fst (create_task clk td creator d)
           = Some (category_prefix c @ ''-'' @ strftime_ymd clk @ ''-'' @ str_of_nat (Suc k))"
    using create_task_next(1) [OF assms(1,2)] wide by (simp add: day_pattern_def)
  have fresh: "category_prefix c @ ''-'' @ strftime_ymd clk @ ''-'' @ str_of_nat (Suc k)
           \<notin> set (map task_code (tasks d))"
    using day_sequence_fresh [OF assms(2)] wide by (simp add: day_pattern_def)
  have earlier: "\<forall>i \<in> set [1..<Suc k].
            category_prefix c @ ''-'' @ strftime_ymd clk @ ''-'' @ format_03d i
              \<noteq> category_prefix c @ ''-'' @ strftime_ymd clk @ ''-'' @ str_of_nat (Suc k)"
  proof
    fix i assume "i \<in> set [1..<Suc k]"
    then have "i \<noteq> Suc k" by auto
    then have "format_03d i \<noteq> format_03d (Suc k)" using format_03d_inj by blast
    with wide show "category_prefix c @ ''-'' @ strftime_ymd clk @ ''-'' @ format_03d i
              \<noteq> category_prefix c @ ''-'' @ strftime_ymd clk @ ''-'' @ str_of_nat (Suc k)"
      by simp
  qed
  from code wide fresh earlier nat_of_digits_str_of_nat [of "Suc k"]
    create_task_next(2) [OF assms(1,2)]
  show ?thesis by blast
qed

lemma wide_codes_while_dates_agree_example:
  "length (tasks (sample_db\<lparr>tasks := day_rows 999\<rparr>)) = 999 \<and>
   fst (create_task sample_clock sample_request 1 (sample_db\<lparr>tasks := day_rows 999\<rparr>))
     = Some ''REP-261104-1000''"
proof -
  have req: "acceptable_request (sample_db\<lparr>tasks := day_rows 999\<rparr>) sample_request 1 ''Repair''"
    by (rule sample_request_acceptable)
  have inv: "day_sequence sample_clock (category_prefix ''Repair'') 999
      (tasks (sample_db\<lparr>tasks := day_rows 999\<rparr>))"
    using day_rows_sequence [of 999] by (simp add: sample_prefix)
  have len: "length (tasks (sample_db\<lparr>tasks := day_rows 999\<rparr>)) = 999"
    by (simp add: day_rows_def)
  have c: "category_prefix ''Repair'' @ ''-'' @ strftime_ymd sample_clock @ ''-'' @ str_of_nat (Suc 999)
      = ''REP-261104-1000''" by code_simp
  from wide_codes_while_dates_agree [OF req inv] c len show ?thesis by simp
qed

text \<open>The date field read back: the year modulo 100, the month and the day of the local clock.\<close>

lemma length_zero_pad_2: "n < 100 \<Longrightarrow> length (zero_pad 2 n) = 2"
  using length_str_of_nat_le [of n 2] str_of_nat_nonempty [of n]
  by (simp add: length_zero_pad)

lemma strftime_ymd_fields:
  assumes "py_month clk < 100" and "py_day clk < 100"
  shows "nat_of_digits (take 2 (strftime_ymd clk)) = py_year clk mod 100"
    and "nat_of_digits (take 2 (drop 2 (strftime_ymd clk))) = py_month clk"
    and "nat_of_digits (drop 4 (strftime_ymd clk)) = py_day clk"
  using assms length_zero_pad_2 [of "py_year clk mod 100"] length_zero_pad_2 [of "py_month clk"]
    length_zero_pad_2 [of "py_day clk"]
  by (simp_all add: strftime_ymd_def nat_of_digits_zero_pad)

section \<open>Task codes when the two dates differ\<close>

lemma day_rows_codes:
  "map task_code (day_rows k)
     = map (\<lambda>i. day_pattern sample_clock ''REP'' @ format_03d i) [1..<Suc k]"
  by (simp add: day_rows_def sample_task_def comp_def)

lemma day_rows_last_code:
  "last (map task_code (day_rows (Suc k)))
     = day_pattern sample_clock ''REP'' @ format_03d (Suc k)"
  by (simp add: day_rows_codes)

lemma late_clock_pattern: "day_pattern late_clock p = day_pattern sample_clock p"
  by (simp add: late_clock_def day_pattern_def strftime_ymd_def)

lemma generate_without_row_of_today:
  assumes "\<forall>t \<in> set rows. sql_date (t_created_at t) \<noteq> sql_date (sql_now clk)"
  shows "generate_task_code clk rows (PStr c)
           = Inr (day_pattern clk (category_prefix c) @ format_03d (Suc 0))"
proof -
  from assms have "filter (counted_today clk (day_pattern clk (category_prefix c))) rows = []"
    by (simp add: filter_empty_conv counted_today_def)
  then show ?thesis by (simp add: generate_task_code_str)
qed

lemma create_task_stored_code:
  assumes "conn_ok d"
    and "generate_task_code clk (tasks d) (dict_get td ''category'' PNone) = Inr code"
    and "code \<in> set (map task_code (tasks d))"
  shows "fst (create_task clk td creator d) = None"
  using assms
  by (simp add: create_task_def Let_def task_insert_ok_def logged_def
      split: option.split sum.split)

text \<open>
  Claim C4 fails on the code where the two clocks give different dates. Two accepted
  requests of one category arrive on the same local day, 4 November; between them SQLite's
  UTC date moves to the 5th. The first is stored as \<^verbatim>\<open>REP-261104-001\<close>. For the second the
  counting query finds no row of the current UTC date, the generator returns
  \<^verbatim>\<open>REP-261104-001\<close> again instead of \<^verbatim>\<open>REP-261104-002\<close>, and \<^verbatim>\<open>create_task\<close> returns
  \<^verbatim>\<open>None\<close>.
\<close>

theorem counter_restarts_when_utc_date_changes:
  "strftime_ymd sample_clock = ''261104'' \<and> strftime_ymd late_clock = ''261104'' \<and>
   sql_date (sql_now sample_clock) = ''2026-11-04'' \<and>
   sql_date (sql_now late_clock) = ''2026-11-05'' \<and>
   fst (create_task sample_clock sample_request 1 sample_db) = Some ''REP-261104-001'' \<and>
   generate_task_code late_clock
       (tasks (snd (create_task sample_clock sample_request 1 sample_db))) (PStr ''Repair'')
     = Inr ''REP-261104-001'' \<and>
   fst (create_task late_clock sample_request 1
          (snd (create_task sample_clock sample_request 1 sample_db))) = None"
  by code_simp

text \<open>
  Claim C8 fails on the code for the same reason. A thousand repairs were stored on
  4 November, the last as \<^verbatim>\<open>REP-261104-1000\<close>; the local date is still the 4th when
  SQLite's UTC date has moved to the 5th. For the next request the generator returns the
  three-digit \<^verbatim>\<open>REP-261104-001\<close>, a code that a row of that day already carries, instead
  of \<^verbatim>\<open>REP-261104-1001\<close>, and \<^verbatim>\<open>create_task\<close> returns \<^verbatim>\<open>None\<close>.
\<close>

theorem restart_repeats_earlier_code:
  "length (tasks (sample_db\<lparr>tasks := day_rows 1000\<rparr>)) = 1000 \<and>
   last (map task_code (tasks (sample_db\<lparr>tasks := day_rows 1000\<rparr>))) = ''REP-261104-1000'' \<and>
   strftime_ymd late_clock = ''261104'' \<and>
   generate_task_code late_clock (tasks (sample_db\<lparr>tasks := day_rows 1000\<rparr>)) (PStr ''Repair'')
     = Inr ''REP-261104-001'' \<and>
   ''REP-261104-001'' \<in> set (map task_code (tasks (sample_db\<lparr>tasks := day_rows 1000\<rparr>))) \<and>
   fst (create_task late_clock sample_request 1 (sample_db\<lparr>tasks := day_rows 1000\<rparr>)) = None"
proof -
  have len: "length (tasks (sample_db\<lparr>tasks := day_rows 1000\<rparr>)) = 1000"
    by (simp add: day_rows_def)
  have c1: "day_pattern sample_clock ''REP'' @ format_03d (Suc 0) = ''REP-261104-001''"
    by code_simp
  have c1000: "day_pattern sample_clock ''REP'' @ format_03d 1000 = ''REP-261104-1000''"
    by code_simp
  have date: "strftime_ymd late_clock = ''261104''" by code_simp
  have e: "Suc 999 = 1000" by simp
  have lst: "last (map task_code (day_rows 1000)) = ''REP-261104-1000''"
    using day_rows_last_code [of 999] unfolding e by (simp only: c1000)
  have "Suc 0 \<in> set [1..<Suc 1000]" by simp
  then have "day_pattern sample_clock ''REP'' @ format_03d (Suc 0)
      \<in> (\<lambda>i. day_pattern sample_clock ''REP'' @ format_03d i) ` set [1..<Suc 1000]"
    by (rule imageI)
  then have mem: "''REP-261104-001'' \<in> set (map task_code (day_rows 1000))"
    by (simp only: day_rows_codes set_map c1)
  have d1: "sql_date ''2026-11-04 08:00:00'' \<noteq> sql_date (sql_now late_clock)" by code_simp
  have old: "\<forall>t \<in> set (day_rows 1000). sql_date (t_created_at t) \<noteq> sql_date (sql_now late_clock)"
    using d1 by (simp add: day_rows_def sample_task_def)
  have gen: "generate_task_code late_clock (day_rows 1000) (PStr ''Repair'')
     = Inr ''REP-261104-001''"
    using generate_without_row_of_today [OF old, of "''Repair''"]
    by (simp only: sample_prefix late_clock_pattern c1)
  have cat: "dict_get sample_request ''category'' PNone = PStr ''Repair''"
    by (simp add: sample_request_def dict_get_def)
  have conn: "conn_ok (sample_db\<lparr>tasks := day_rows 1000\<rparr>)" by (simp add: sample_db_def)
  have none: "fst (create_task late_clock sample_request 1 (sample_db\<lparr>tasks := day_rows 1000\<rparr>)) = None"
    using create_task_stored_code [OF conn, of late_clock sample_request "''REP-261104-001''" 1]
      gen mem
    by (simp add: cat)
  from len lst date gen mem none show ?thesis by simp
qed

section \<open>Selecting a task for an upload\<close>

lemma not_digit_dash: "\<not> is_digit CHR ''-''"
  by (simp add: is_digit_def)

lemma str_of_int_tail_digits: "ch \<in> set (tl (str_of_int n)) \<Longrightarrow> is_digit ch"
proof (cases "n < 0")
  case True
  assume "ch \<in> set (tl (str_of_int n))"
  with True show ?thesis by (auto simp add: str_of_int_def dest: str_of_nat_digits)
next
  case False
  assume "ch \<in> set (tl (str_of_int n))"
  with False have "ch \<in> set (str_of_nat (nat n))"
    by (auto simp add: str_of_int_def dest: list.set_sel(2) [OF str_of_nat_nonempty])
  then show ?thesis by (rule str_of_nat_digits)
qed

lemma strftime_ymd_nonempty: "strftime_ymd clk \<noteq> []"
  by (simp add: strftime_ymd_def zero_pad_def str_of_nat_nonempty)

lemma dated_not_int: "strftime_ymd clk @ ''-'' @ f \<noteq> str_of_int n"
proof
  assume eq: "strftime_ymd clk @ ''-'' @ f = str_of_int n"
  obtain a as where d: "strftime_ymd clk = a # as"
    using strftime_ymd_nonempty [of clk] by (cases "strftime_ymd clk") auto
  with eq have "CHR ''-'' \<in> set (tl (str_of_int n))"
    by (simp flip: eq)
  then show False using str_of_int_tail_digits not_digit_dash by blast
qed

lemma generated_code_not_task_id:
  assumes "generated_code code"
  shows "code \<noteq> ''TASK-'' @ str_of_int n"
proof
  assume eq: "code = ''TASK-'' @ str_of_int n"
  from assms obtain clk rows c where "generate_task_code clk rows (PStr c) = Inr code"
    unfolding generated_code_def by blast
  then have "\<exists>k. code = category_prefix c @ ''-'' @ strftime_ymd clk @ ''-'' @ format_03d k"
    by (auto simp add: generate_task_code_str day_pattern_def)
  then obtain k where code: "code = category_prefix c @ ''-'' @ strftime_ymd clk @ ''-'' @ format_03d k"
    by blast
  from category_prefix_cases(1) [of c]
  consider "category_prefix c = ''TASK''"
    | "category_prefix c \<in> {''INST'', ''MAINT'', ''REP'', ''INSP'', ''CAL'', ''COMM'',
         ''TRAIN'', ''EMRG'', ''OTHER''}"
    by (auto simp add: category_prefixes_def)
  then show False
  proof cases
    case 1
    with code eq have "strftime_ymd clk @ ''-'' @ format_03d k = str_of_int n" by simp
    then show False using dated_not_int by blast
  next
    case 2
    with code eq show False by auto
  qed
qed

lemma find_none_generated:
  assumes "\<forall>t \<in> set rows. generated_code (task_code t)"
  shows "find (\<lambda>t. task_code t = ''TASK-'' @ str_of_int n) rows = None"
  using assms generated_code_not_task_id by (auto simp add: find_None_iff)

text \<open>
  Claim C10. Selecting the task with id \<open>n\<close> for an upload looks up the code \<^verbatim>\<open>TASK-n\<close>. In
  a database whose task codes all come from \<^verbatim>\<open>_generate_task_code\<close> no row has such a
  code, whether or not a task with id \<open>n\<close> exists: the lookup finds nothing, the answer is
  the alert \<^verbatim>\<open>Task not found.\<close>, and neither a session nor a row changes.
\<close>

theorem upload_selection_task_not_found:
  assumes "py_int (split_second ''upload_task_'' data) = Inr n"
    and "\<forall>t \<in> set (tasks (bdb st)). generated_code (task_code t)"
  shows "fst (get_task_by_code (''TASK-'' @ str_of_int n) (bdb st)) = None \<and>
         handle_upload_task_selection data u st
           = Inr ([Callback_answer (Some ''Task not found.'') True],
                  st\<lparr>bdb := (if conn_ok (bdb st) then logged (Read Tasks) (bdb st) else bdb st)\<rparr>) \<and>
         (\<forall>r. handle_upload_task_selection data u st = Inr r \<longrightarrow>
            active_sessions (snd r) = active_sessions st \<and> same_rows (bdb st) (bdb (snd r)))"
  using assms(1) find_none_generated [OF assms(2), of n]
  by (auto simp add: handle_upload_task_selection_def get_task_by_code_def logged_def
      same_rows_def)

theorem upload_selection_task_not_found_witness:
  "py_int (split_second ''upload_task_'' ''upload_task_1'') = Inr 1 \<and>
   map t_id (tasks (bdb sample_state)) = [1] \<and>
   map task_code (tasks (bdb sample_state)) = [''INST-261104-001''] \<and>
   generate_task_code sample_clock [] (PStr ''installation'') = Inr ''INST-261104-001'' \<and>
   handle_upload_task_selection ''upload_task_1''
       (sample_user 1 ''1001'' ''active'' (Some ''technician'')) sample_state
     = Inr ([Callback_answer (Some ''Task not found.'') True],
            sample_state\<lparr>bdb := logged (Read Tasks) (bdb sample_state)\<rparr>) \<and>
   fst (handle_callback sample_clock (sample_callback ''1001'' ''upload_task_1'') sample_state)
     = [Callback_answer (Some ''Task not found.'') True, Callback_answer None False] \<and>
   active_sessions
     (snd (handle_callback sample_clock (sample_callback ''1001'' ''upload_task_1'') sample_state)) 1
     = None"
proof -
  have p: "py_int (split_second ''upload_task_'' ''upload_task_1'') = Inr 1" by code_simp
  have i: "map t_id (tasks (bdb sample_state)) = [1]" by code_simp
  have k: "map task_code (tasks (bdb sample_state)) = [''INST-261104-001'']" by code_simp
  have e: "generate_task_code sample_clock [] (PStr ''installation'') = Inr ''INST-261104-001''"
    by code_simp
  then have "generated_code ''INST-261104-001''" unfolding generated_code_def by blast
  then have g: "\<forall>t \<in> set (tasks (bdb sample_state)). generated_code (task_code t)"
    by (simp add: sample_state_def sample_db_def sample_task_def)
  have c: "conn_ok (bdb sample_state)" by (simp add: sample_state_def sample_db_def)
  have r: "fst (handle_callback sample_clock (sample_callback ''1001'' ''upload_task_1'') sample_state)
     = [Callback_answer (Some ''Task not found.'') True, Callback_answer None False]"
    by code_simp
  have s: "active_sessions
     (snd (handle_callback sample_clock (sample_callback ''1001'' ''upload_task_1'') sample_state)) 1
     = None"
    by code_simp
  from upload_selection_task_not_found [OF p g, of "sample_user 1 ''1001'' ''active'' (Some ''technician'')"]
    p i k e c r s
  show ?thesis by simp
qed

section \<open>Starting a flow over a live session\<close>

lemma startswithD: "startswith s p \<Longrightarrow> \<exists>r. s = p @ r"
  by (metis append_take_drop_id startswith_def)

lemma check_user_access_rows:
  "check_user_access clk tid d = (uo, d1) \<Longrightarrow>
     tasks d1 = tasks d \<and> activity_logs d1 = activity_logs d \<and> files d1 = files d"
  by (auto simp add: check_user_access_def get_user_by_telegram_id_def update_last_login_def
      logged_def split: if_splits option.splits)

lemma activity_selection_callback:
  assumes "check_user_access clk (cb_from cb) (bdb st) = (Some u, d1)"
    and "cb_data cb = Some s" and "startswith s ''act_''"
  shows "handle_callback clk cb st
           = ([Message_edit (Log_activity_prompt (split_second ''act_'' s)),
               Callback_answer None False],
              st\<lparr>bdb := d1,
                 active_sessions := (active_sessions st)(u_id u \<mapsto>
                   [''action'' \<mapsto> PStr ''log_activity'',
                    ''activity_type'' \<mapsto> PStr (split_second ''act_'' s),
                    ''step'' \<mapsto> PStr ''description''])\<rparr>)"
proof -
  from startswithD [OF assms(3)] obtain r where s: "s = ''act_'' @ r" by blast
  have other: "\<not> startswith s ''tasks_filter_''" "\<not> startswith s ''cat_''"
    "\<not> startswith s ''city_''" "\<not> startswith s ''company_''" "\<not> startswith s ''priority_''"
    "s \<noteq> ''start_registration''" "s \<noteq> ''learn_more''"
    by (simp_all add: s startswith_def)
  show ?thesis
    using assms other
    by (simp add: handle_callback_def authenticated_callback_def then_answer_def
        handle_activity_selection_def Let_def)
qed

lemma category_selection_callback:
  assumes "check_user_access clk (cb_from cb) (bdb st) = (Some u, d1)"
    and "cb_data cb = Some s" and "startswith s ''cat_''"
  shows "require_role u [''manager'', ''technician''] \<Longrightarrow>
         handle_callback clk cb st
           = ([Message_edit (Create_task_prompt (split_second ''cat_'' s)),
               Callback_answer None False],
              st\<lparr>bdb := d1,
                 active_sessions := (active_sessions st)(u_id u \<mapsto>
                   [''action'' \<mapsto> PStr ''create_task'',
                    ''category'' \<mapsto> PStr (split_second ''cat_'' s),
                    ''step'' \<mapsto> PStr ''description''])\<rparr>)"
    and "\<not> require_role u [''manager'', ''technician''] \<Longrightarrow>
         handle_callback clk cb st
           = ([Callback_answer (Some ''You don't have permission to create tasks.'') True,
               Callback_answer None False],
              st\<lparr>bdb := d1\<rparr>)"
proof -
  from startswithD [OF assms(3)] obtain r where s: "s = ''cat_'' @ r" by blast
  have other: "\<not> startswith s ''tasks_filter_''"
    "s \<noteq> ''start_registration''" "s \<noteq> ''learn_more''"
    by (simp_all add: s startswith_def)
  show "require_role u [''manager'', ''technician''] \<Longrightarrow>
         handle_callback clk cb st
           = ([Message_edit (Create_task_prompt (split_second ''cat_'' s)),
               Callback_answer None False],
              st\<lparr>bdb := d1,
                 active_sessions := (active_sessions st)(u_id u \<mapsto>
                   [''action'' \<mapsto> PStr ''create_task'',
                    ''category'' \<mapsto> PStr (split_second ''cat_'' s),
                    ''step'' \<mapsto> PStr ''description''])\<rparr>)"
    using assms other
    by (simp add: handle_callback_def authenticated_callback_def then_answer_def
        handle_category_selection_def Let_def)
  show "\<not> require_role u [''manager'', ''technician''] \<Longrightarrow>
         handle_callback clk cb st
           = ([Callback_answer (Some ''You don't have permission to create tasks.'') True,
               Callback_answer None False],
              st\<lparr>bdb := d1\<rparr>)"
    using assms other
    by (simp add: handle_callback_def authenticated_callback_def then_answer_def
        handle_category_selection_def Let_def)
qed

text \<open>
  Claim C5, as stated, fails: an active account with the role \<^verbatim>\<open>commercial\<close> and a live
  \<^verbatim>\<open>log_activity\<close> session sends a category selection; the answer is the permission alert
  and the session afterwards is still the \<^verbatim>\<open>log_activity\<close> one, not the first step of
  task creation.
\<close>

theorem session_replaced_counterexample:
  "account_status (bdb sample_state) ''1003'' = Some ''active'' \<and>
   the (active_sessions sample_state 3) ''action'' = Some (PStr ''log_activity'') \<and>
   fst (handle_callback sample_clock (sample_callback ''1003'' ''cat_repair'') sample_state)
     = [Callback_answer (Some ''You don't have permission to create tasks.'') True,
        Callback_answer None False] \<and>
   the (active_sessions
          (snd (handle_callback sample_clock (sample_callback ''1003'' ''cat_repair'') sample_state))
          3) ''action''
     = Some (PStr ''log_activity'') \<and>
   the (active_sessions
          (snd (handle_callback sample_clock (sample_callback ''1003'' ''cat_repair'') sample_state))
          3) ''action''
     \<noteq> Some (PStr ''create_task'')"
  by code_simp

text \<open>
  Claim C5, amended. For an active caller, an activity-type selection always, and a
  category selection when the caller's role is \<^verbatim>\<open>manager\<close> or \<^verbatim>\<open>technician\<close>, leaves the
  caller with exactly the new flow's first step, whatever session existed before; the
  sessions of other accounts stay as they were, and so do the task, activity and file
  rows. A category selection of a caller without such a role is answered with the
  permission alert and changes no session.
\<close>

theorem session_replaced_when_flow_starts:
  assumes "check_user_access clk (cb_from cb) (bdb st) = (Some u, d1)"
    and "cb_data cb = Some s"
  shows "(startswith s ''act_'' \<longrightarrow>
            snd (handle_callback clk cb st)
              = st\<lparr>bdb := d1,
                   active_sessions := (active_sessions st)(u_id u \<mapsto>
                     [''action'' \<mapsto> PStr ''log_activity'',
                      ''activity_type'' \<mapsto> PStr (split_second ''act_'' s),
                      ''step'' \<mapsto> PStr ''description''])\<rparr>) \<and>
         (startswith s ''cat_'' \<and> require_role u [''manager'', ''technician''] \<longrightarrow>
            snd (handle_callback clk cb st)
              = st\<lparr>bdb := d1,
                   active_sessions := (active_sessions st)(u_id u \<mapsto>
                     [''action'' \<mapsto> PStr ''create_task'',
                      ''category'' \<mapsto> PStr (split_second ''cat_'' s),
                      ''step'' \<mapsto> PStr ''description''])\<rparr>) \<and>
         (startswith s ''cat_'' \<and> \<not> require_role u [''manager'', ''technician''] \<longrightarrow>
            handle_callback clk cb st
              = ([Callback_answer (Some ''You don't have permission to create tasks.'') True,
                  Callback_answer None False],
                 st\<lparr>bdb := d1\<rparr>)) \<and>
         tasks d1 = tasks (bdb st) \<and> activity_logs d1 = activity_logs (bdb st) \<and>
         files d1 = files (bdb st)"
  using activity_selection_callback [OF assms] category_selection_callback [OF assms]
    check_user_access_rows [OF assms(1)]
  by simp

theorem session_replaced_when_flow_starts_witness:
  "check_user_access sample_clock (cb_from (sample_callback ''1003'' ''act_travel_time''))
       (bdb sample_state)
     = (Some (sample_user 3 ''1003'' ''active'' (Some ''commercial'')),
        snd (check_user_access sample_clock ''1003'' (bdb sample_state))) \<and>
   startswith ''act_travel_time'' ''act_'' \<and>
   the (active_sessions sample_state 3) ''activity_type'' = Some (PStr ''repair'') \<and>
   the (active_sessions
          (snd (handle_callback sample_clock (sample_callback ''1003'' ''act_travel_time'')
                  sample_state)) 3) ''activity_type''
     = Some (PStr ''travel_time'') \<and>
   the (active_sessions
          (snd (handle_callback sample_clock (sample_callback ''1003'' ''act_travel_time'')
                  sample_state)) 3) ''step''
     = Some (PStr ''description'')"
proof -
  have a: "check_user_access sample_clock (cb_from (sample_callback ''1003'' ''act_travel_time''))
       (bdb sample_state)
     = (Some (sample_user 3 ''1003'' ''active'' (Some ''commercial'')),
        snd (check_user_access sample_clock ''1003'' (bdb sample_state)))"
    by code_simp
  have d: "cb_data (sample_callback ''1003'' ''act_travel_time'') = Some ''act_travel_time''"
    by (simp add: sample_callback_def)
  have p: "startswith ''act_travel_time'' ''act_''" by code_simp
  have v: "split_second ''act_'' ''act_travel_time'' = ''travel_time''" by code_simp
  have o: "the (active_sessions sample_state 3) ''activity_type'' = Some (PStr ''repair'')"
    by code_simp
  have i: "u_id (sample_user 3 ''1003'' ''active'' (Some ''commercial'')) = 3"
    by (simp add: sample_user_def)
  from session_replaced_when_flow_starts [OF a d] p v i
  have "active_sessions
          (snd (handle_callback sample_clock (sample_callback ''1003'' ''act_travel_time'')
                  sample_state)) 3
      = Some [''action'' \<mapsto> PStr ''log_activity'',
              ''activity_type'' \<mapsto> PStr ''travel_time'',
              ''step'' \<mapsto> PStr ''description'']"
    by simp
  with a p o show ?thesis by simp
qed

section \<open>Every callback query is answered\<close>

lemma authenticated_callback_replies:
  "authenticated_callback clk data u st = Inr r \<Longrightarrow> fst r \<noteq> []"
  by (cases data)
    (auto simp add: authenticated_callback_def then_answer_def split: if_splits sum.splits)

lemma handle_callback_replies: "fst (handle_callback clk cb st) \<noteq> []"
  by (auto simp add: handle_callback_def
      split: prod.splits option.splits sum.splits dest: authenticated_callback_replies)

lemma unknown_token_chain:
  assumes "\<not> catalog_token s"
  shows "authenticated_callback clk (Some s) u st
           = Inr ([Callback_answer (Some ''Unknown action'') False, Callback_answer None False], st)"
  using assms by (simp add: catalog_token_def authenticated_callback_def then_answer_def)

lemma unknown_token_callback:
  assumes "cb_data cb = Some s" and "\<not> catalog_token s"
  shows "check_user_access clk (cb_from cb) (bdb st) = (Some u, d1) \<Longrightarrow>
         handle_callback clk cb st
           = ([Callback_answer (Some ''Unknown action'') False, Callback_answer None False],
              st\<lparr>bdb := d1\<rparr>)"
    and "check_user_access clk (cb_from cb) (bdb st) = (None, d1) \<Longrightarrow>
         handle_callback clk cb st
           = ([Callback_answer (Some ''Access denied. Please register first.'') True],
              st\<lparr>bdb := d1\<rparr>)"
proof -
  from assms(2) have ne: "s \<noteq> ''start_registration''" "s \<noteq> ''learn_more''"
    by (auto simp add: catalog_token_def)
  show "check_user_access clk (cb_from cb) (bdb st) = (Some u, d1) \<Longrightarrow>
         handle_callback clk cb st
           = ([Callback_answer (Some ''Unknown action'') False, Callback_answer None False],
              st\<lparr>bdb := d1\<rparr>)"
    using assms(1) ne unknown_token_chain [OF assms(2)]
    by (simp add: handle_callback_def)
  show "check_user_access clk (cb_from cb) (bdb st) = (None, d1) \<Longrightarrow>
         handle_callback clk cb st
           = ([Callback_answer (Some ''Access denied. Please register first.'') True],
              st\<lparr>bdb := d1\<rparr>)"
    using assms(1) ne by (simp add: handle_callback_def)
qed

lemma raised_in_chain:
  assumes "check_user_access clk (cb_from cb) (bdb st) = (Some u, d1)"
    and "authenticated_callback clk (cb_data cb) u (st\<lparr>bdb := d1\<rparr>) = Inl e"
    and "cb_data cb \<noteq> Some ''start_registration''" and "cb_data cb \<noteq> Some ''learn_more''"
  shows "handle_callback clk cb st
           = ([Callback_answer (Some ''An error occurred. Please try again.'') True],
              st\<lparr>bdb := d1\<rparr>)"
  using assms by (simp add: handle_callback_def)

text \<open>
  Claim C7, as stated, fails: a pending account presses a button whose token matches no
  catalog entry; the answer is the access-denied alert, not the unknown-action text.
\<close>

theorem unknown_action_counterexample:
  "account_status (bdb sample_state) ''1002'' = Some ''pending'' \<and>
   \<not> catalog_token ''foo'' \<and>
   fst (handle_callback sample_clock (sample_callback ''1002'' ''foo'') sample_state)
     = [Callback_answer (Some ''Access denied. Please register first.'') True] \<and>
   Callback_answer (Some ''Unknown action'') False
     \<notin> set (fst (handle_callback sample_clock (sample_callback ''1002'' ''foo'') sample_state))"
  by code_simp

text \<open>
  Claim C7, amended. Every callback query is answered: \<^verbatim>\<open>handle_callback\<close> returns at least
  one reply on every input, and an exception raised inside its chain ends in the generic
  error alert. A token that matches no catalog entry is answered with \<^verbatim>\<open>Unknown action\<close>
  when the caller's account is active and with the access-denied alert when it is not.
\<close>

theorem callback_always_answered:
  "fst (handle_callback clk cb st) \<noteq> [] \<and>
   (cb_data cb = Some s \<and> \<not> catalog_token s \<and>
    check_user_access clk (cb_from cb) (bdb st) = (Some u, d1) \<longrightarrow>
      handle_callback clk cb st
        = ([Callback_answer (Some ''Unknown action'') False, Callback_answer None False],
           st\<lparr>bdb := d1\<rparr>)) \<and>
   (cb_data cb = Some s \<and> \<not> catalog_token s \<and>
    check_user_access clk (cb_from cb) (bdb st) = (None, d1) \<longrightarrow>
      handle_callback clk cb st
        = ([Callback_answer (Some ''Access denied. Please register first.'') True],
           st\<lparr>bdb := d1\<rparr>)) \<and>
   (check_user_access clk (cb_from cb) (bdb st) = (Some u, d1) \<and>
    authenticated_callback clk (cb_data cb) u (st\<lparr>bdb := d1\<rparr>) = Inl e \<and>
    cb_data cb \<noteq> Some ''start_registration'' \<and> cb_data cb \<noteq> Some ''learn_more'' \<longrightarrow>
      handle_callback clk cb st
        = ([Callback_answer (Some ''An error occurred. Please try again.'') True],
           st\<lparr>bdb := d1\<rparr>))"
  using handle_callback_replies [of clk cb st]
    unknown_token_callback(1) [where cb = cb and s = s and clk = clk and st = st and u = u and ?d1.0 = d1]
    unknown_token_callback(2) [where cb = cb and s = s and clk = clk and st = st and ?d1.0 = d1]
    raised_in_chain [where clk = clk and cb = cb and st = st and u = u and ?d1.0 = d1 and e = e]
  by blast

theorem callback_always_answered_witness:
  "cb_data (sample_callback ''1001'' ''foo'') = Some ''foo'' \<and> \<not> catalog_token ''foo'' \<and>
   check_user_access sample_clock (cb_from (sample_callback ''1001'' ''foo'')) (bdb sample_state)
     = (Some (sample_user 1 ''1001'' ''active'' (Some ''technician'')),
        snd (check_user_access sample_clock ''1001'' (bdb sample_state))) \<and>
   fst (handle_callback sample_clock (sample_callback ''1001'' ''foo'') sample_state)
     = [Callback_answer (Some ''Unknown action'') False, Callback_answer None False] \<and>
   authenticated_callback sample_clock (cb_data (sample_callback ''1001'' ''upload_task_x''))
       (sample_user 1 ''1001'' ''active'' (Some ''technician''))
       (sample_state\<lparr>bdb := snd (check_user_access sample_clock ''1001'' (bdb sample_state))\<rparr>)
     = Inl ValueError \<and>
   fst (handle_callback sample_clock (sample_callback ''1001'' ''upload_task_x'') sample_state)
     = [Callback_answer (Some ''An error occurred. Please try again.'') True]"
proof -
  have d: "cb_data (sample_callback ''1001'' ''foo'') = Some ''foo''"
    by (simp add: sample_callback_def)
  have t: "\<not> catalog_token ''foo''" by code_simp
  have a: "check_user_access sample_clock (cb_from (sample_callback ''1001'' ''foo''))
       (bdb sample_state)
     = (Some (sample_user 1 ''1001'' ''active'' (Some ''technician'')),
        snd (check_user_access sample_clock ''1001'' (bdb sample_state)))"
    by code_simp
  have a': "check_user_access sample_clock (cb_from (sample_callback ''1001'' ''upload_task_x''))
       (bdb sample_state)
     = (Some (sample_user 1 ''1001'' ''active'' (Some ''technician'')),
        snd (check_user_access sample_clock ''1001'' (bdb sample_state)))"
    by code_simp
  have x: "authenticated_callback sample_clock (cb_data (sample_callback ''1001'' ''upload_task_x''))
       (sample_user 1 ''1001'' ''active'' (Some ''technician''))
       (sample_state\<lparr>bdb := snd (check_user_access sample_clock ''1001'' (bdb sample_state))\<rparr>)
     = Inl ValueError"
  proof -
    have "py_int (split_second ''upload_task_'' ''upload_task_x'') = Inl ValueError"
      by code_simp
    then show ?thesis
      by (simp add: sample_callback_def authenticated_callback_def startswith_def
          handle_upload_task_selection_def)
  qed
  have n: "cb_data (sample_callback ''1001'' ''upload_task_x'') \<noteq> Some ''start_registration'' \<and>
           cb_data (sample_callback ''1001'' ''upload_task_x'') \<noteq> Some ''learn_more''"
    by (simp add: sample_callback_def)
  from callback_always_answered [of sample_clock "sample_callback ''1001'' ''foo''" sample_state
      "''foo''" "sample_user 1 ''1001'' ''active'' (Some ''technician'')"
      "snd (check_user_access sample_clock ''1001'' (bdb sample_state))"] d t a
  have one: "fst (handle_callback sample_clock (sample_callback ''1001'' ''foo'') sample_state)
     = [Callback_answer (Some ''Unknown action'') False, Callback_answer None False]"
    by simp
  from callback_always_answered [of sample_clock "sample_callback ''1001'' ''upload_task_x''"
      sample_state "''foo''" "sample_user 1 ''1001'' ''active'' (Some ''technician'')"
      "snd (check_user_access sample_clock ''1001'' (bdb sample_state))" ValueError] a' x n
  have two: "fst (handle_callback sample_clock (sample_callback ''1001'' ''upload_task_x'') sample_state)
     = [Callback_answer (Some ''An error occurred. Please try again.'') True]"
    by simp
  from d t a x one two show ?thesis by blast
qed

end
